theory Spec2Isabelle
  imports Main
begin

section \<open>Role-scoped access and data partitioning\<close>

text \<open>
  A shallow embedding of the service layer (\<^verbatim>\<open>vendorService\<close>, \<^verbatim>\<open>projectService\<close>,
  \<^verbatim>\<open>agreementService\<close>, \<^verbatim>\<open>organizationService\<close>) and of the view handlers that decide
  what is written. Identifiers, tokens and e-mail addresses are strings; a nullable or
  optional value is an \<open>option\<close>; timestamps are natural numbers. The remote row store is
  a record of tables (lists of rows); every request made while the store is unreachable
  returns the store's error, which the services rethrow.
\<close>

subsection \<open>JavaScript values\<close>

text \<open>Truthiness of a \<^verbatim>\<open>string | null | undefined\<close>: null, undefined and the empty
  string are falsy.\<close>

definition truthy :: "string option \<Rightarrow> bool" where
  "truthy s = (case s of None \<Rightarrow> False | Some v \<Rightarrow> v \<noteq> [])"

text \<open>\<^verbatim>\<open>a || b\<close> on nullable strings, and \<^verbatim>\<open>a ?? d\<close>.\<close>

definition js_or :: "string option \<Rightarrow> string option \<Rightarrow> string option" where
  "js_or a b = (if truthy a then a else b)"

definition nullish :: "'a option \<Rightarrow> 'a \<Rightarrow> 'a" where
  "nullish a d = (case a of None \<Rightarrow> d | Some v \<Rightarrow> v)"

text \<open>\<^verbatim>\<open>String.prototype.trim\<close> on ASCII white space.\<close>

definition is_space :: "char \<Rightarrow> bool" where
  "is_space c = (c \<in> set [CHR '' '', CHR 0x09, CHR 0x0A, CHR 0x0B, CHR 0x0C, CHR 0x0D])"

definition trim :: "string \<Rightarrow> string" where
  "trim s = rev (dropWhile is_space (rev (dropWhile is_space s)))"

text \<open>\<^verbatim>\<open>String.prototype.toLowerCase\<close> on ASCII letters.\<close>

definition lower_char :: "char \<Rightarrow> char" where
  "lower_char c =
     (if (65::nat) \<le> of_char c \<and> of_char c \<le> (90::nat)
      then char_of (of_char c + (32::nat)) else c)"

definition toLowerCase :: "string \<Rightarrow> string" where
  "toLowerCase s = map lower_char s"

text \<open>\<^verbatim>\<open>s || undefined\<close> and \<^verbatim>\<open>s || null\<close> on a string.\<close>

definition non_empty :: "string \<Rightarrow> string option" where
  "non_empty s = (if s = [] then None else Some s)"

datatype error = Backend string | Failure string

fun error_message :: "error \<Rightarrow> string" where
  "error_message (Backend m) = m"
| "error_message (Failure m) = m"

subsection \<open>Logic filters of the row store\<close>

text \<open>
  \<^verbatim>\<open>.or(filters)\<close> sends its argument as text, and the store reads it by the grammar of
  PostgREST's logic filters: filters separated by commas, each of the form
  \<^verbatim>\<open>column.operator.value\<close> with an optional \<^verbatim>\<open>not.\<close> before the operator. A value is a
  double-quoted string (a backslash escapes the next character) that ends where the
  filter ends, or a brace-delimited array literal, or else the run of characters up to the
  next comma or closing parenthesis. The operators \<^verbatim>\<open>eq\<close>, \<^verbatim>\<open>neq\<close> and \<^verbatim>\<open>is\<close> with
  \<^verbatim>\<open>null\<close> are read; any other text, a nested \<^verbatim>\<open>and(...)\<close> or \<^verbatim>\<open>or(...)\<close> group
  included, is refused as text outside the grammar is.
\<close>

datatype alt =
    Alt_eq string string
  | Alt_neq string string
  | Alt_is_null string
  | Alt_not_null string

fun alt_holds :: "(string \<Rightarrow> string option) \<Rightarrow> alt \<Rightarrow> bool" where
  "alt_holds c (Alt_eq k v) = (c k = Some v)"
| "alt_holds c (Alt_neq k v) = (case c k of None \<Rightarrow> False | Some w \<Rightarrow> w \<noteq> v)"
| "alt_holds c (Alt_is_null k) = (c k = None)"
| "alt_holds c (Alt_not_null k) = (c k \<noteq> None)"

text \<open>The text after an opening double quote, up to the closing one.\<close>

fun quoted :: "string \<Rightarrow> (string \<times> string) option" where
  "quoted [] = None"
| "quoted (c # cs) =
     (if c = CHR 0x22 then Some ([], cs)
      else if c = CHR 0x5C then
        (case cs of
           [] \<Rightarrow> None
         | e # es \<Rightarrow> map_option (\<lambda>(v, r). (e # v, r)) (quoted es))
      else map_option (\<lambda>(v, r). (c # v, r)) (quoted cs))"

definition quoted_value :: "string \<Rightarrow> (string \<times> string) option" where
  "quoted_value s =
     (case s of
        [] \<Rightarrow> None
      | c # cs \<Rightarrow>
          if c = CHR 0x22 then
            (case quoted cs of
               None \<Rightarrow> None
             | Some (v, r) \<Rightarrow>
                 (case r of
                    [] \<Rightarrow> Some (v, r)
                  | n # _ \<Rightarrow> if n = CHR '','' \<or> n = CHR '')'' then Some (v, r) else None))
          else None)"

definition pg_array :: "string \<Rightarrow> (string \<times> string) option" where
  "pg_array s =
     (case s of
        [] \<Rightarrow> None
      | c # cs \<Rightarrow>
          if c = CHR ''{'' then
            (case dropWhile (\<lambda>x. x \<noteq> CHR ''{'' \<and> x \<noteq> CHR ''}'') cs of
               [] \<Rightarrow> None
             | e # r \<Rightarrow>
                 if e = CHR ''}''
                 then Some (c # takeWhile (\<lambda>x. x \<noteq> CHR ''{'' \<and> x \<noteq> CHR ''}'') cs @ [e], r)
                 else None)
          else None)"

definition raw_value :: "string \<Rightarrow> string \<times> string" where
  "raw_value s =
     (takeWhile (\<lambda>x. x \<noteq> CHR '','' \<and> x \<noteq> CHR '')'') s,
      dropWhile (\<lambda>x. x \<noteq> CHR '','' \<and> x \<noteq> CHR '')'') s)"

definition logic_value :: "string \<Rightarrow> string \<times> string" where
  "logic_value s =
     (case quoted_value s of
        Some vr \<Rightarrow> vr
      | None \<Rightarrow> (case pg_array s of Some vr \<Rightarrow> vr | None \<Rightarrow> raw_value s))"

definition field_char :: "char \<Rightarrow> bool" where
  "field_char c =
     (c = CHR ''_'' \<or> c = CHR '' '' \<or> c = CHR ''$'' \<or>
      ((48::nat) \<le> of_char c \<and> of_char c \<le> (57::nat)) \<or>
      ((65::nat) \<le> of_char c \<and> of_char c \<le> (90::nat)) \<or>
      ((97::nat) \<le> of_char c \<and> of_char c \<le> (122::nat)))"

text \<open>One filter, and the text left after it.\<close>

definition parse_filter :: "string \<Rightarrow> (alt \<times> string) option" where
  "parse_filter s =
     (let field = takeWhile (\<lambda>x. x \<noteq> CHR ''.'') s in
      case dropWhile (\<lambda>x. x \<noteq> CHR ''.'') s of
        [] \<Rightarrow> None
      | dot # r2 \<Rightarrow>
          if field = [] \<or> \<not> list_all field_char field then None
          else
            (let negated = (take 4 r2 = ''not.'');
                 r3 = (if negated then drop 4 r2 else r2);
                 operator = takeWhile (\<lambda>x. x \<noteq> CHR ''.'') r3
             in case dropWhile (\<lambda>x. x \<noteq> CHR ''.'') r3 of
                  [] \<Rightarrow> None
                | dot' # r5 \<Rightarrow>
                    (let v = fst (logic_value r5); rest = snd (logic_value r5)
                     in if operator = ''eq''
                        then Some (if negated then Alt_neq field v else Alt_eq field v, rest)
                        else if operator = ''neq''
                        then Some (if negated then Alt_eq field v else Alt_neq field v, rest)
                        else if operator = ''is'' \<and> v = ''null''
                        then Some (if negated then Alt_not_null field else Alt_is_null field,
                                   rest)
                        else None)))"

text \<open>The whole argument: filters, each followed by a comma or by the end of the text.\<close>

function parse_filters :: "string \<Rightarrow> alt list option" where
  "parse_filters s =
     (case parse_filter s of
        None \<Rightarrow> None
      | Some (a, rest) \<Rightarrow>
          (case rest of
             [] \<Rightarrow> Some [a]
           | c # cs \<Rightarrow>
               if c = CHR '','' then map_option ((#) a) (parse_filters cs) else None))"
  by pat_completeness auto
termination
proof (relation "measure length")
  show "wf (measure length)" by simp
next
  fix s x2 a rest c cs
  assume parsed: "parse_filter s = Some x2" "(a, rest) = x2" and cons: "rest = c # cs"
  have quoted_shorter: "quoted t = Some (v, r) \<Longrightarrow> length r < length t" for t v r
  proof (induction t arbitrary: v r rule: quoted.induct)
    case 1
    then show ?case by simp
  next
    case (2 c cs)
    then show ?case by (fastforce split: if_splits list.splits)
  qed
  have drop_le: "length (dropWhile P xs) \<le> length xs" for P and xs :: string
    by (rule length_dropWhile_le)
  have value_le: "length (snd (logic_value t)) \<le> length t" for t
  proof -
    have q: "quoted_value t = Some (v, r) \<Longrightarrow> length r \<le> length t" for v r
      by (auto simp: quoted_value_def split: list.splits if_splits option.splits
          dest!: quoted_shorter)
    have p: "pg_array t = Some (v, r) \<Longrightarrow> length r \<le> length t" for v r
      using drop_le [of "\<lambda>x. x \<noteq> CHR ''{'' \<and> x \<noteq> CHR ''}''" "tl t"]
      by (auto simp: pg_array_def split: list.splits if_splits)
    show ?thesis
      using q p drop_le [of "\<lambda>x. x \<noteq> CHR '','' \<and> x \<noteq> CHR '')''" t]
      by (auto simp: logic_value_def raw_value_def split: option.splits)
  qed
  from parsed obtain dot r2 dot' r5 r3 where
    a: "dropWhile (\<lambda>x. x \<noteq> CHR ''.'') s = dot # r2" and
    b: "r3 = r2 \<or> r3 = drop 4 r2" and
    c: "dropWhile (\<lambda>x. x \<noteq> CHR ''.'') r3 = dot' # r5" and
    d: "rest = snd (logic_value r5)"
    by (auto simp: parse_filter_def Let_def split: list.splits if_splits)
  have "length rest \<le> length r5" using d value_le by simp
  also have "\<dots> < length (dropWhile (\<lambda>x. x \<noteq> CHR ''.'') r3)" using c by simp
  also have "\<dots> \<le> length r3" by (rule drop_le)
  also have "\<dots> \<le> length r2" using b by auto
  also have "\<dots> < length (dropWhile (\<lambda>x. x \<noteq> CHR ''.'') s)" using a by simp
  also have "\<dots> \<le> length s" by (rule drop_le)
  finally have "length rest < length s" .
  with cons show "(cs, s) \<in> measure length" by simp
qed

declare parse_filters.simps [simp del]

subsection \<open>The query builder of the row store\<close>

text \<open>The filters the services use: \<^verbatim>\<open>.eq(col, v)\<close>, \<^verbatim>\<open>.is(col, null)\<close>,
  \<^verbatim>\<open>.not(col, 'is', null)\<close>, \<^verbatim>\<open>.or(filters)\<close> and \<^verbatim>\<open>.in(col, vs)\<close>. A row is read
  through its column function, which gives the text of a column or \<open>None\<close> for SQL NULL.
  An \<^verbatim>\<open>.or\<close> filter is kept as the text the caller built; a row passes it when it passes
  one of the filters the text is read as.\<close>

datatype cond =
    Eq string string
  | Is_null string
  | Not_is_null string
  | Or_filter string
  | In_vals string "string list"

fun holds :: "(string \<Rightarrow> string option) \<Rightarrow> cond \<Rightarrow> bool" where
  "holds c (Eq k v) = (c k = Some v)"
| "holds c (Is_null k) = (c k = None)"
| "holds c (Not_is_null k) = (c k \<noteq> None)"
| "holds c (Or_filter s) =
     (case parse_filters s of None \<Rightarrow> False | Some alts \<Rightarrow> list_ex (alt_holds c) alts)"
| "holds c (In_vals k vs) = (case c k of None \<Rightarrow> False | Some v \<Rightarrow> v \<in> set vs)"

fun well_formed :: "cond \<Rightarrow> bool" where
  "well_formed (Or_filter s) = (parse_filters s \<noteq> None)"
| "well_formed c = True"

record query =
  conds :: "cond list"
  newest_first :: bool

definition select_all :: query where
  "select_all = \<lparr>conds = [], newest_first = False\<rparr>"

definition q_eq :: "string \<Rightarrow> string \<Rightarrow> query \<Rightarrow> query" where
  "q_eq k v q = q\<lparr>conds := conds q @ [Eq k v]\<rparr>"

definition q_is_null :: "string \<Rightarrow> query \<Rightarrow> query" where
  "q_is_null k q = q\<lparr>conds := conds q @ [Is_null k]\<rparr>"

definition q_not_is_null :: "string \<Rightarrow> query \<Rightarrow> query" where
  "q_not_is_null k q = q\<lparr>conds := conds q @ [Not_is_null k]\<rparr>"

definition q_or :: "string \<Rightarrow> query \<Rightarrow> query" where
  "q_or filters q = q\<lparr>conds := conds q @ [Or_filter filters]\<rparr>"

definition q_in :: "string \<Rightarrow> string list \<Rightarrow> query \<Rightarrow> query" where
  "q_in k vs q = q\<lparr>conds := conds q @ [In_vals k vs]\<rparr>"

definition q_order_created_desc :: "query \<Rightarrow> query" where
  "q_order_created_desc q = q\<lparr>newest_first := True\<rparr>"

text \<open>\<^verbatim>\<open>.order('created_at', { ascending: false })\<close>; rows of equal age come in one
  fixed order.\<close>

definition order_desc :: "('r \<Rightarrow> nat) \<Rightarrow> 'r list \<Rightarrow> 'r list" where
  "order_desc created xs = rev (sort_key created xs)"

definition run_query ::
  "('r \<Rightarrow> string \<Rightarrow> string option) \<Rightarrow> ('r \<Rightarrow> nat) \<Rightarrow> query \<Rightarrow> 'r list \<Rightarrow> 'r list" where
  "run_query col created q rows =
     (let hits = filter (\<lambda>r. list_all (holds (col r)) (conds q)) rows
      in if newest_first q then order_desc created hits else hits)"

text \<open>Awaiting a query: the store refuses a request whose logic filter it cannot read and
  answers the others with the rows that pass every filter.\<close>

definition execute ::
  "('r \<Rightarrow> string \<Rightarrow> string option) \<Rightarrow> ('r \<Rightarrow> nat) \<Rightarrow> query \<Rightarrow> 'r list \<Rightarrow> error + 'r list" where
  "execute col created q rows =
     (if list_all well_formed (conds q) then Inr (run_query col created q rows)
      else Inl (Failure ''failed to parse logic tree''))"

subsection \<open>Tables\<close>

record vendor_document =
  doc_id :: string
  doc_name :: string
  doc_url :: string
  doc_uploaded_at :: nat
  doc_mime_type :: "string option"

text \<open>\<^verbatim>\<open>VendorRow\<close>; the \<^verbatim>\<open>documents\<close> column is JSON, \<open>None\<close> when it is not an array.\<close>

record vendor_row =
  v_id :: string
  v_organization_id :: string
  v_branch_office_id :: "string option"
  v_name :: string
  v_tin :: string
  v_contact_email :: "string option"
  v_contact_phone :: "string option"
  v_notes :: "string option"
  v_documents :: "vendor_document list option"
  v_created_by :: "string option"
  v_created_at :: nat
  v_updated_at :: nat

record vendor =
  vendor_id :: string
  vendor_organization_id :: string
  vendor_branch_office_id :: "string option"
  vendor_name :: string
  vendor_tin :: string
  vendor_contact_email :: "string option"
  vendor_contact_phone :: "string option"
  vendor_notes :: "string option"
  vendor_documents :: "vendor_document list"
  vendor_created_by :: "string option"
  vendor_created_at :: nat
  vendor_updated_at :: nat

datatype project_status = Active | Onhold | Completed

fun status_text :: "project_status \<Rightarrow> string" where
  "status_text Active = ''active''"
| "status_text Onhold = ''onhold''"
| "status_text Completed = ''completed''"

text \<open>\<^verbatim>\<open>ProjectRow\<close>; \<^verbatim>\<open>rowToProject\<close> copies every field, so \<^verbatim>\<open>Project\<close> is the same record.\<close>

record project_row =
  p_id :: string
  p_organization_id :: string
  p_branch_office_id :: "string option"
  p_name :: string
  p_description :: "string option"
  p_status :: project_status
  p_start_date :: "string option"
  p_end_date :: "string option"
  p_created_by :: "string option"
  p_created_at :: nat
  p_updated_at :: nat

datatype clause_type = Standard | Modified | Custom

record clause =
  cl_id :: string
  cl_title :: string
  cl_content :: string
  cl_type :: clause_type

record comment =
  cm_id :: string
  cm_author :: string
  cm_text :: string
  cm_timestamp :: string

record audit_event =
  ev_id :: string
  ev_action :: string
  ev_user :: string
  ev_timestamp :: string
  ev_details :: "string option"

text \<open>\<^verbatim>\<open>AgreementRow\<close>, each nullable column an \<open>option\<close>.\<close>

record agreement_row =
  a_id :: string
  a_organization_id :: string
  a_branch_office_id :: "string option"
  a_project_id :: "string option"
  a_owner_user_id :: "string option"
  a_title :: string
  a_counterparty :: string
  a_department :: "string option"
  a_owner :: "string option"
  a_effective_date :: "string option"
  a_renewal_date :: "string option"
  a_value :: "int option"
  a_risk_level :: string
  a_status :: string
  a_sections :: "clause list option"
  a_tags :: "string list option"
  a_version :: "int option"
  a_comments :: "comment list option"
  a_audit_log :: "audit_event list option"
  a_created_at :: nat
  a_updated_at :: nat

text \<open>\<^verbatim>\<open>Agreement\<close>. The fields that \<^verbatim>\<open>upsertAgreementForOrganization\<close> guards with
  \<^verbatim>\<open>??\<close> may be null or undefined in a value handed in by a caller, so they are options.\<close>

record agreement =
  ag_id :: string
  ag_title :: string
  ag_counterparty :: string
  ag_branchOfficeId :: "string option"
  ag_projectId :: "string option"
  ag_department :: string
  ag_owner :: string
  ag_effectiveDate :: string
  ag_renewalDate :: string
  ag_value :: "int option"
  ag_riskLevel :: string
  ag_status :: string
  ag_sections :: "clause list option"
  ag_tags :: "string list option"
  ag_version :: "int option"
  ag_createdAt :: nat
  ag_updatedAt :: nat
  ag_comments :: "comment list option"
  ag_auditLog :: "audit_event list option"

datatype role = Org_admin | Branch_admin | Branch_user

record organization =
  o_id :: string
  o_user_id :: string
  o_name :: string
  o_hq_location :: string
  o_plan :: string
  o_created_at :: nat
  o_updated_at :: nat

record member_row =
  m_id :: string
  m_organization_id :: string
  m_user_id :: string
  m_role :: role
  m_branch_office_id :: "string option"
  m_department :: "string option"
  m_created_at :: nat

datatype invite_status = Pending | Accepted | Revoked

record invite_row =
  i_id :: string
  i_organization_id :: string
  i_branch_office_id :: string
  i_email :: string
  i_role :: role
  i_full_name :: "string option"
  i_department :: "string option"
  i_title :: "string option"
  i_contact_email :: "string option"
  i_invite_token :: string
  i_status :: invite_status
  i_user_id :: "string option"
  i_created_at :: nat
  i_accepted_at :: "nat option"

record db =
  organizations :: "organization list"
  organization_members :: "member_row list"
  branch_invites :: "invite_row list"
  vendors :: "vendor_row list"
  projects :: "project_row list"
  agreements :: "agreement_row list"
  outage :: "string option"

subsection \<open>Vendors\<close>

fun vendor_col :: "vendor_row \<Rightarrow> string \<Rightarrow> string option" where
  "vendor_col r k =
     (if k = ''id'' then Some (v_id r)
      else if k = ''organization_id'' then Some (v_organization_id r)
      else if k = ''branch_office_id'' then v_branch_office_id r
      else if k = ''name'' then Some (v_name r)
      else None)"

definition rowToVendor :: "vendor_row \<Rightarrow> vendor" where
  "rowToVendor row =
     \<lparr>vendor_id = v_id row, vendor_organization_id = v_organization_id row,
      vendor_branch_office_id = v_branch_office_id row, vendor_name = v_name row, vendor_tin = v_tin row,
      vendor_contact_email = v_contact_email row, vendor_contact_phone = v_contact_phone row,
      vendor_notes = v_notes row,
      vendor_documents = (case v_documents row of Some ds \<Rightarrow> ds | None \<Rightarrow> []),
      vendor_created_by = v_created_by row, vendor_created_at = v_created_at row,
      vendor_updated_at = v_updated_at row\<rparr>"

datatype scope = Scope_all | Scope_organization | Scope_branch

record fetch_params =
  organizationId :: string
  branchOfficeId :: "string option"
  scope :: "scope option"

text \<open>The template literal
  \<^verbatim>\<open>`branch_office_id.eq.${params.branchOfficeId},branch_office_id.is.null`\<close>: the id goes
  into the text as it is.\<close>

definition branch_or_null :: "string \<Rightarrow> string" where
  "branch_or_null branch = ''branch_office_id.eq.'' @ branch @ '',branch_office_id.is.null''"

definition fetchVendors_query :: "fetch_params \<Rightarrow> query" where
  "fetchVendors_query params =
     (let query = q_order_created_desc (q_eq ''organization_id'' (organizationId params) select_all)
      in if scope params = Some Scope_branch then
           (if truthy (branchOfficeId params)
            then q_eq ''branch_office_id'' (the (branchOfficeId params)) query
            else q_not_is_null ''branch_office_id'' query)
         else if scope params = Some Scope_organization then
           q_is_null ''branch_office_id'' query
         else if truthy (branchOfficeId params) \<and> scope params \<noteq> Some Scope_all then
           q_or (branch_or_null (the (branchOfficeId params))) query
         else query)"

definition fetchVendors :: "fetch_params \<Rightarrow> db \<Rightarrow> error + vendor list" where
  "fetchVendors params d =
     (case outage d of
        Some e \<Rightarrow> Inl (Backend e)
      | None \<Rightarrow>
          (case execute vendor_col v_created_at (fetchVendors_query params) (vendors d) of
             Inl e \<Rightarrow> Inl e
           | Inr data \<Rightarrow> Inr (map rowToVendor data)))"

subsection \<open>Projects\<close>

fun project_col :: "project_row \<Rightarrow> string \<Rightarrow> string option" where
  "project_col r k =
     (if k = ''id'' then Some (p_id r)
      else if k = ''organization_id'' then Some (p_organization_id r)
      else if k = ''branch_office_id'' then p_branch_office_id r
      else if k = ''name'' then Some (p_name r)
      else if k = ''status'' then Some (status_text (p_status r))
      else None)"

definition rowToProject :: "project_row \<Rightarrow> project_row" where
  "rowToProject row =
     \<lparr>p_id = p_id row, p_organization_id = p_organization_id row,
      p_branch_office_id = p_branch_office_id row, p_name = p_name row,
      p_description = p_description row, p_status = p_status row,
      p_start_date = p_start_date row, p_end_date = p_end_date row,
      p_created_by = p_created_by row, p_created_at = p_created_at row,
      p_updated_at = p_updated_at row\<rparr>"

record project_fetch_params = fetch_params +
  statuses :: "project_status list option"

definition fetchProjects_query :: "project_fetch_params \<Rightarrow> query" where
  "fetchProjects_query params =
     (let query = q_order_created_desc (q_eq ''organization_id'' (organizationId params) select_all);
          query =
            (if scope params = Some Scope_branch then
               (if truthy (branchOfficeId params)
                then q_eq ''branch_office_id'' (the (branchOfficeId params)) query
                else q_not_is_null ''branch_office_id'' query)
             else if scope params = Some Scope_organization then
               q_is_null ''branch_office_id'' query
             else if truthy (branchOfficeId params) \<and> scope params \<noteq> Some Scope_all then
               q_or (branch_or_null (the (branchOfficeId params))) query
             else query)
      in case statuses params of
           Some (s # ss) \<Rightarrow> q_in ''status'' (map status_text (s # ss)) query
         | _ \<Rightarrow> query)"

definition fetchProjects :: "project_fetch_params \<Rightarrow> db \<Rightarrow> error + project_row list" where
  "fetchProjects params d =
     (case outage d of
        Some e \<Rightarrow> Inl (Backend e)
      | None \<Rightarrow>
          (case execute project_col p_created_at (fetchProjects_query params) (projects d) of
             Inl e \<Rightarrow> Inl e
           | Inr data \<Rightarrow> Inr (map rowToProject data)))"

subsection \<open>Writing vendors\<close>

text \<open>\<^verbatim>\<open>createVendor\<close>: an insert; the table has \<^verbatim>\<open>unique (organization_id, name)\<close>, the id
  is generated and the timestamps default to now.\<close>

record vendor_payload =
  vp_organizationId :: string
  vp_branchOfficeId :: "string option"
  vp_name :: string
  vp_tin :: string
  vp_contactEmail :: "string option"
  vp_contactPhone :: "string option"
  vp_notes :: "string option"
  vp_documents :: "vendor_document list option"
  vp_createdBy :: "string option"

definition createVendor ::
  "vendor_payload \<Rightarrow> string \<Rightarrow> nat \<Rightarrow> db \<Rightarrow> (error + vendor) \<times> db" where
  "createVendor payload new_id now d =
     (case outage d of
        Some e \<Rightarrow> (Inl (Backend e), d)
      | None \<Rightarrow>
          if list_ex (\<lambda>r. v_organization_id r = vp_organizationId payload \<and>
                            v_name r = vp_name payload) (vendors d)
          then (Inl (Failure ''duplicate key value violates unique constraint''), d)
          else
            (let data =
               \<lparr>v_id = new_id,
                v_organization_id = vp_organizationId payload,
                v_branch_office_id = vp_branchOfficeId payload,
                v_name = vp_name payload,
                v_tin = vp_tin payload,
                v_contact_email = vp_contactEmail payload,
                v_contact_phone = vp_contactPhone payload,
                v_notes = vp_notes payload,
                v_documents = Some (nullish (vp_documents payload) []),
                v_created_by = vp_createdBy payload,
                v_created_at = now, v_updated_at = now\<rparr>
             in (Inr (rowToVendor data), d\<lparr>vendors := vendors d @ [data]\<rparr>)))"

text \<open>\<^verbatim>\<open>updateVendorDocuments\<close>: an update by id followed by \<^verbatim>\<open>.select().single()\<close>, which
  fails unless exactly one row comes back.\<close>

definition updateVendorDocuments ::
  "string \<Rightarrow> vendor_document list \<Rightarrow> nat \<Rightarrow> db \<Rightarrow> (error + vendor) \<times> db" where
  "updateVendorDocuments vid docs now d =
     (case outage d of
        Some e \<Rightarrow> (Inl (Backend e), d)
      | None \<Rightarrow>
          (let d' = d\<lparr>vendors :=
                       map (\<lambda>r. if v_id r = vid
                                 then r\<lparr>v_documents := Some docs, v_updated_at := now\<rparr> else r)
                         (vendors d)\<rparr>
           in case filter (\<lambda>r. v_id r = vid) (vendors d') of
                [r] \<Rightarrow> (Inr (rowToVendor r), d')
              | _ \<Rightarrow> (Inl (Failure ''JSON object requested, multiple (or no) rows returned''), d')))"

subsection \<open>Vendor documents (\<^verbatim>\<open>VendorManager.handleUploadDocuments\<close>)\<close>

definition MAX_DOCUMENTS :: nat where
  "MAX_DOCUMENTS = 3"

record upload_file =
  file_name :: string
  file_type :: string

text \<open>The world the handler acts on: the row store and the objects put into the bucket by
  \<^verbatim>\<open>uploadVendorDocument\<close>. The upload function is external: it returns a URL or fails.\<close>

record world =
  store :: db
  bucket :: "(string \<times> upload_file) list"

record vendor_view =
  view_vendors :: "vendor list"
  docError :: "string option"
  uploadingVendorId :: "string option"

text \<open>The \<^verbatim>\<open>for ... of\<close> loop: one upload per file, in order, stopping at the first
  failure; the document ids come from \<^verbatim>\<open>crypto.randomUUID\<close>, here a supply of ids.\<close>

fun upload_loop ::
  "(string \<Rightarrow> upload_file \<Rightarrow> error + string) \<Rightarrow> string \<Rightarrow> string list \<Rightarrow> nat \<Rightarrow>
   upload_file list \<Rightarrow> vendor_document list \<Rightarrow> (string \<times> upload_file) list \<Rightarrow>
   (error + vendor_document list) \<times> (string \<times> upload_file) list" where
  "upload_loop upload vid ids now [] existingDocs objs = (Inr existingDocs, objs)"
| "upload_loop upload vid ids now (f # fs) existingDocs objs =
     (case upload vid f of
        Inl e \<Rightarrow> (Inl e, objs)
      | Inr url \<Rightarrow>
          (let doc = \<lparr>doc_id = (case ids of [] \<Rightarrow> [] | i # _ \<Rightarrow> i), doc_name = file_name f,
                       doc_url = url, doc_uploaded_at = now,
                       doc_mime_type = js_or (Some (file_type f)) None\<rparr>
           in upload_loop upload vid (tl ids) now fs (existingDocs @ [doc]) (objs @ [(vid, f)])))"

definition handleUploadDocuments ::
  "vendor \<Rightarrow> upload_file list option \<Rightarrow> (string \<Rightarrow> upload_file \<Rightarrow> error + string) \<Rightarrow>
   string list \<Rightarrow> nat \<Rightarrow> vendor_view \<times> world \<Rightarrow> vendor_view \<times> world" where
  "handleUploadDocuments vendor files upload ids now vw =
     (let view = fst vw; w = snd vw in
      case files of
        None \<Rightarrow> (view, w)
      | Some [] \<Rightarrow> (view, w)
      | Some fs \<Rightarrow>
          if length (vendor_documents vendor) + length fs > MAX_DOCUMENTS
          then (view\<lparr>docError := Some ''You can upload up to 3 files per vendor.''\<rparr>, w)
          else
            (case upload_loop upload (vendor_id vendor) ids now fs (vendor_documents vendor)
                    (bucket w) of
               (Inl e, objs) \<Rightarrow>
                 (view\<lparr>docError := Some (error_message e), uploadingVendorId := None\<rparr>,
                  w\<lparr>bucket := objs\<rparr>)
             | (Inr existingDocs, objs) \<Rightarrow>
                 (case updateVendorDocuments (vendor_id vendor) existingDocs now (store w) of
                    (Inl e, d') \<Rightarrow>
                      (view\<lparr>docError := Some (error_message e), uploadingVendorId := None\<rparr>,
                       \<lparr>store = d', bucket = objs\<rparr>)
                  | (Inr updated, d') \<Rightarrow>
                      (view\<lparr>view_vendors :=
                              map (\<lambda>v. if vendor_id v = vendor_id vendor then updated else v)
                                (view_vendors view),
                            docError := None, uploadingVendorId := None\<rparr>,
                       \<lparr>store = d', bucket = objs\<rparr>))))"

subsection \<open>The signed-in principal (\<^verbatim>\<open>useAuth\<close>)\<close>

record session =
  s_organization :: "organization option"
  s_memberRole :: "role option"
  s_branchOfficeId :: "string option"
  s_user :: "string option"

definition isOrgAdmin :: "session \<Rightarrow> bool" where
  "isOrgAdmin s = (s_memberRole s = Some Org_admin)"

text \<open>What a view handler did: returned at once, refused with a message before any
  request, surfaced the error of a failed request, or completed with a result.\<close>

datatype 'a handled = Ignored | Refused string | Failed string | Submitted 'a

datatype form_scope = Form_organization | Form_branch

subsection \<open>Creating vendors (\<^verbatim>\<open>VendorManager\<close>, \<^verbatim>\<open>AgreementGenerator\<close>)\<close>

record vendor_form =
  vf_name :: string
  vf_tin :: string
  vf_contactEmail :: string
  vf_contactPhone :: string
  vf_notes :: string
  vf_scope :: form_scope
  vf_branchOfficeId :: string

definition handleCreateVendor ::
  "session \<Rightarrow> vendor_form \<Rightarrow> string \<Rightarrow> nat \<Rightarrow> db \<Rightarrow> vendor handled \<times> db" where
  "handleCreateVendor s form new_id now d =
     (case s_organization s of
        None \<Rightarrow> (Ignored, d)
      | Some org \<Rightarrow>
          if trim (vf_name form) = [] \<or> trim (vf_tin form) = []
          then (Refused ''Vendor name and TIN are required.'', d)
          else if vf_scope form = Form_branch \<and>
                  \<not> truthy (js_or (Some (vf_branchOfficeId form)) (s_branchOfficeId s))
          then (Refused ''Select a branch to assign this vendor.'', d)
          else
            (let branchAssignment =
               (if isOrgAdmin s
                then (if vf_scope form = Form_organization then None
                      else non_empty (vf_branchOfficeId form))
                else s_branchOfficeId s)
             in case createVendor
                  \<lparr>vp_organizationId = o_id org,
                   vp_branchOfficeId = branchAssignment,
                   vp_name = trim (vf_name form),
                   vp_tin = trim (vf_tin form),
                   vp_contactEmail = non_empty (trim (vf_contactEmail form)),
                   vp_contactPhone = non_empty (trim (vf_contactPhone form)),
                   vp_notes = non_empty (trim (vf_notes form)),
                   vp_documents = None,
                   vp_createdBy = s_user s\<rparr> new_id now d of
                  (Inl e, d') \<Rightarrow> (Failed (error_message e), d')
                | (Inr newVendor, d') \<Rightarrow> (Submitted newVendor, d')))"

record quick_vendor_form =
  qv_name :: string
  qv_tin :: string
  qv_scope :: form_scope
  qv_branchOfficeId :: string
  qv_contactEmail :: string

definition handleQuickVendorSave ::
  "session \<Rightarrow> quick_vendor_form \<Rightarrow> string \<Rightarrow> nat \<Rightarrow> db \<Rightarrow> vendor handled \<times> db" where
  "handleQuickVendorSave s quickVendorForm new_id now d =
     (case s_organization s of
        None \<Rightarrow> (Ignored, d)
      | Some org \<Rightarrow>
          if trim (qv_name quickVendorForm) = [] \<or> trim (qv_tin quickVendorForm) = []
          then (Refused ''Vendor name and TIN are required.'', d)
          else
            (let branchAssignment =
               (if isOrgAdmin s
                then (if qv_scope quickVendorForm = Form_organization then None
                      else non_empty (qv_branchOfficeId quickVendorForm))
                else s_branchOfficeId s)
             in if qv_scope quickVendorForm = Form_branch \<and> \<not> truthy branchAssignment
                then (Refused ''Assign a branch to create this vendor.'', d)
                else
                  (case createVendor
                     \<lparr>vp_organizationId = o_id org,
                      vp_branchOfficeId = branchAssignment,
                      vp_name = trim (qv_name quickVendorForm),
                      vp_tin = trim (qv_tin quickVendorForm),
                      vp_contactEmail = non_empty (trim (qv_contactEmail quickVendorForm)),
                      vp_contactPhone = None,
                      vp_notes = None,
                      vp_documents = None,
                      vp_createdBy = s_user s\<rparr> new_id now d of
                     (Inl e, d') \<Rightarrow> (Failed (error_message e), d')
                   | (Inr newVendor, d') \<Rightarrow> (Submitted newVendor, d'))))"

subsection \<open>Creating projects (\<^verbatim>\<open>ProjectManager\<close>, \<^verbatim>\<open>AgreementGenerator\<close>)\<close>

record project_payload =
  pp_organizationId :: string
  pp_branchOfficeId :: "string option"
  pp_name :: string
  pp_description :: "string option"
  pp_status :: "project_status option"
  pp_startDate :: "string option"
  pp_endDate :: "string option"
  pp_createdBy :: "string option"

definition createProject ::
  "project_payload \<Rightarrow> string \<Rightarrow> nat \<Rightarrow> db \<Rightarrow> (error + project_row) \<times> db" where
  "createProject payload new_id now d =
     (case outage d of
        Some e \<Rightarrow> (Inl (Backend e), d)
      | None \<Rightarrow>
          if list_ex (\<lambda>r. p_organization_id r = pp_organizationId payload \<and>
                            p_name r = pp_name payload) (projects d)
          then (Inl (Failure ''duplicate key value violates unique constraint''), d)
          else
            (let data =
               \<lparr>p_id = new_id,
                p_organization_id = pp_organizationId payload,
                p_branch_office_id = pp_branchOfficeId payload,
                p_name = pp_name payload,
                p_description = pp_description payload,
                p_status = nullish (pp_status payload) Active,
                p_start_date = pp_startDate payload,
                p_end_date = pp_endDate payload,
                p_created_by = pp_createdBy payload,
                p_created_at = now, p_updated_at = now\<rparr>
             in (Inr (rowToProject data), d\<lparr>projects := projects d @ [data]\<rparr>)))"

record project_form =
  pf_name :: string
  pf_description :: string
  pf_status :: project_status
  pf_scope :: form_scope
  pf_branchOfficeId :: string
  pf_startDate :: string
  pf_endDate :: string

definition handleCreateProject ::
  "session \<Rightarrow> project_form \<Rightarrow> string \<Rightarrow> nat \<Rightarrow> db \<Rightarrow> project_row handled \<times> db" where
  "handleCreateProject s form new_id now d =
     (case s_organization s of
        None \<Rightarrow> (Ignored, d)
      | Some org \<Rightarrow>
          if trim (pf_name form) = []
          then (Refused ''Project name is required.'', d)
          else if pf_scope form = Form_branch \<and>
                  \<not> truthy (js_or (Some (pf_branchOfficeId form)) (s_branchOfficeId s))
          then (Refused ''Select a branch for branch-scoped projects.'', d)
          else
            (case createProject
               \<lparr>pp_organizationId = o_id org,
                pp_branchOfficeId =
                  (if pf_scope form = Form_organization then None
                   else js_or (js_or (Some (pf_branchOfficeId form)) (s_branchOfficeId s)) None),
                pp_name = trim (pf_name form),
                pp_description = non_empty (trim (pf_description form)),
                pp_status = Some (pf_status form),
                pp_startDate = non_empty (pf_startDate form),
                pp_endDate = non_empty (pf_endDate form),
                pp_createdBy = s_user s\<rparr> new_id now d of
               (Inl e, d') \<Rightarrow> (Failed (error_message e), d')
             | (Inr newProject, d') \<Rightarrow> (Submitted newProject, d')))"

record quick_project_form =
  qp_name :: string
  qp_description :: string
  qp_scope :: form_scope
  qp_branchOfficeId :: string

definition handleQuickProjectSave ::
  "session \<Rightarrow> quick_project_form \<Rightarrow> string \<Rightarrow> nat \<Rightarrow> db \<Rightarrow> project_row handled \<times> db" where
  "handleQuickProjectSave s quickProjectForm new_id now d =
     (case s_organization s of
        None \<Rightarrow> (Ignored, d)
      | Some org \<Rightarrow>
          if trim (qp_name quickProjectForm) = []
          then (Refused ''Project name is required.'', d)
          else
            (let branchAssignment =
               (if isOrgAdmin s
                then (if qp_scope quickProjectForm = Form_organization then None
                      else non_empty (qp_branchOfficeId quickProjectForm))
                else s_branchOfficeId s)
             in if qp_scope quickProjectForm = Form_branch \<and> \<not> truthy branchAssignment
                then (Refused ''Assign a branch to create this project.'', d)
                else
                  (case createProject
                     \<lparr>pp_organizationId = o_id org,
                      pp_branchOfficeId = branchAssignment,
                      pp_name = trim (qp_name quickProjectForm),
                      pp_description = non_empty (trim (qp_description quickProjectForm)),
                      pp_status = Some Active,
                      pp_startDate = None,
                      pp_endDate = None,
                      pp_createdBy = s_user s\<rparr> new_id now d of
                     (Inl e, d') \<Rightarrow> (Failed (error_message e), d')
                   | (Inr newProject, d') \<Rightarrow> (Submitted newProject, d'))))"

subsection \<open>Saving templates (\<^verbatim>\<open>TemplateBuilder.handleSave\<close>)\<close>

datatype visibility = Vis_organization | Vis_branch

record draft_section =
  ds_id :: string
  ds_title :: string
  ds_required :: bool
  ds_content :: string

record template =
  t_id :: string
  t_organization_id :: string
  t_branch_office_id :: "string option"
  t_name :: string
  t_description :: "string option"
  t_visibility :: visibility
  t_sections :: "draft_section list"
  t_created_by :: "string option"
  t_created_at :: nat
  t_updated_at :: nat

record template_meta =
  tm_name :: string
  tm_description :: string
  tm_visibility :: visibility

text \<open>The handler ends by handing its payload to \<^verbatim>\<open>saveTemplate\<close>, the only write it
  makes; \<open>Submitted\<close> carries that payload, the other outcomes make no request.\<close>

definition handleSave ::
  "session \<Rightarrow> template_meta \<Rightarrow> string option \<Rightarrow> draft_section list \<Rightarrow> string \<Rightarrow> nat \<Rightarrow>
   template handled" where
  "handleSave s templateMeta activeTemplateId draft fresh_id now =
     (case (s_organization s, s_user s) of
        (Some org, Some user) \<Rightarrow>
          if trim (tm_name templateMeta) = []
          then Refused ''Template name is required.''
          else
            (let templateId = nullish activeTemplateId fresh_id;
                 effectiveVisibility =
                   (if isOrgAdmin s then tm_visibility templateMeta else Vis_branch);
                 branchTarget =
                   (if effectiveVisibility = Vis_branch then s_branchOfficeId s else None)
             in if effectiveVisibility = Vis_branch \<and> \<not> truthy branchTarget
                then Refused ''Branch templates require a branch office context.''
                else Submitted
                  \<lparr>t_id = templateId,
                   t_organization_id = o_id org,
                   t_branch_office_id = branchTarget,
                   t_name = trim (tm_name templateMeta),
                   t_description = Some (trim (tm_description templateMeta)),
                   t_visibility = effectiveVisibility,
                   t_sections = draft,
                   t_created_by = Some user,
                   t_created_at = now,
                   t_updated_at = now\<rparr>)
      | _ \<Rightarrow> Ignored)"

subsection \<open>Agreements\<close>

fun agreement_col :: "agreement_row \<Rightarrow> string \<Rightarrow> string option" where
  "agreement_col r k =
     (if k = ''id'' then Some (a_id r)
      else if k = ''organization_id'' then Some (a_organization_id r)
      else if k = ''branch_office_id'' then a_branch_office_id r
      else if k = ''project_id'' then a_project_id r
      else None)"

definition rowToAgreement :: "agreement_row \<Rightarrow> agreement" where
  "rowToAgreement row =
     \<lparr>ag_id = a_id row,
      ag_title = a_title row,
      ag_counterparty = a_counterparty row,
      ag_branchOfficeId = js_or (a_branch_office_id row) None,
      ag_projectId = js_or (a_project_id row) None,
      ag_department = nullish (a_department row) [],
      ag_owner = nullish (a_owner row) [],
      ag_effectiveDate = nullish (a_effective_date row) [],
      ag_renewalDate = nullish (a_renewal_date row) [],
      ag_value = Some (nullish (a_value row) 0),
      ag_riskLevel = a_risk_level row,
      ag_status = a_status row,
      ag_sections = Some (nullish (a_sections row) []),
      ag_tags = Some (nullish (a_tags row) []),
      ag_version = Some (nullish (a_version row) 1),
      ag_createdAt = a_created_at row,
      ag_updatedAt = a_updated_at row,
      ag_comments = Some (nullish (a_comments row) []),
      ag_auditLog = Some (nullish (a_audit_log row) [])\<rparr>"

record agreement_options =
  opt_branchOfficeId :: "string option"
  opt_projectId :: "string option"

definition fetchAgreements_query :: "string \<Rightarrow> agreement_options option \<Rightarrow> query" where
  "fetchAgreements_query orgId options =
     (let query = q_eq ''organization_id'' orgId select_all;
          branch = (case options of None \<Rightarrow> None | Some opts \<Rightarrow> opt_branchOfficeId opts);
          project = (case options of None \<Rightarrow> None | Some opts \<Rightarrow> opt_projectId opts);
          query = (if truthy branch then q_eq ''branch_office_id'' (the branch) query else query);
          query = (if truthy project then q_eq ''project_id'' (the project) query else query)
      in q_order_created_desc query)"

definition fetchAgreementsForOrganization ::
  "string \<Rightarrow> agreement_options option \<Rightarrow> db \<Rightarrow> error + agreement list" where
  "fetchAgreementsForOrganization orgId options d =
     (if orgId = [] then Inr []
      else case outage d of
        Some e \<Rightarrow> Inl (Backend e)
      | None \<Rightarrow>
          (case execute agreement_col a_created_at (fetchAgreements_query orgId options)
                  (agreements d) of
             Inl e \<Rightarrow> Inl e
           | Inr data \<Rightarrow> Inr (map rowToAgreement data)))"

text \<open>The row written by \<^verbatim>\<open>.upsert(payload, { onConflict: 'id' })\<close>: the payload's columns,
  with \<^verbatim>\<open>created_at\<close> kept from the row it replaces (or set on insert) and
  \<^verbatim>\<open>updated_at\<close> set by the table's trigger.\<close>

definition agreement_payload ::
  "agreement \<Rightarrow> string \<Rightarrow> string option \<Rightarrow> nat \<Rightarrow> nat \<Rightarrow> agreement_row" where
  "agreement_payload agreement orgId ownerUserId created now =
     \<lparr>a_id = ag_id agreement,
      a_organization_id = orgId,
      a_branch_office_id = ag_branchOfficeId agreement,
      a_project_id = ag_projectId agreement,
      a_owner_user_id = ownerUserId,
      a_title = ag_title agreement,
      a_counterparty = ag_counterparty agreement,
      a_department = Some (ag_department agreement),
      a_owner = Some (ag_owner agreement),
      a_effective_date = js_or (Some (ag_effectiveDate agreement)) None,
      a_renewal_date = js_or (Some (ag_renewalDate agreement)) None,
      a_value = Some (nullish (ag_value agreement) 0),
      a_risk_level = ag_riskLevel agreement,
      a_status = ag_status agreement,
      a_sections = Some (nullish (ag_sections agreement) []),
      a_tags = Some (nullish (ag_tags agreement) []),
      a_version = Some (nullish (ag_version agreement) 1),
      a_comments = Some (nullish (ag_comments agreement) []),
      a_audit_log = Some (nullish (ag_auditLog agreement) []),
      a_created_at = created,
      a_updated_at = now\<rparr>"

definition upsertAgreementForOrganization ::
  "agreement \<Rightarrow> string \<Rightarrow> string option \<Rightarrow> nat \<Rightarrow> db \<Rightarrow> (error + agreement) \<times> db" where
  "upsertAgreementForOrganization agreement orgId ownerUserId now d =
     (case outage d of
        Some e \<Rightarrow> (Inl (Backend e), d)
      | None \<Rightarrow>
          (case find (\<lambda>r. a_id r = ag_id agreement) (agreements d) of
             Some old \<Rightarrow>
               (let data = agreement_payload agreement orgId ownerUserId
                             (a_created_at old) now
                in (Inr (rowToAgreement data),
                    d\<lparr>agreements :=
                        map (\<lambda>r. if a_id r = ag_id agreement then data else r) (agreements d)\<rparr>))
           | None \<Rightarrow>
               (let data = agreement_payload agreement orgId ownerUserId now now
                in (Inr (rowToAgreement data), d\<lparr>agreements := agreements d @ [data]\<rparr>))))"

subsection \<open>Saving agreements (\<^verbatim>\<open>AgreementGenerator.handleSave\<close>, \<^verbatim>\<open>App\<close>)\<close>

text \<open>\<^verbatim>\<open>s || d\<close> on an optional string.\<close>

definition or_default :: "string option \<Rightarrow> string \<Rightarrow> string" where
  "or_default a d = (case a of None \<Rightarrow> d | Some v \<Rightarrow> if v = [] then d else v)"

record generator_state =
  g_title :: string
  g_counterparty :: string
  g_type :: string
  g_sections :: "clause list"
  g_riskLevel :: string
  g_selectedProjectId :: "string option"

text \<open>The agreement \<^verbatim>\<open>handleSave\<close> builds; \<open>initialData\<close> is the agreement being edited, if
  any. The generated id and the two dates come from the environment.\<close>

definition newAgreement ::
  "session \<Rightarrow> agreement option \<Rightarrow> generator_state \<Rightarrow> string \<Rightarrow> string \<Rightarrow> string \<Rightarrow> nat \<Rightarrow>
   agreement" where
  "newAgreement s initialData g generated_id today in_a_year now =
     \<lparr>ag_id = or_default (map_option ag_id initialData) generated_id,
      ag_title = g_title g,
      ag_counterparty = g_counterparty g,
      ag_branchOfficeId =
        (case s_branchOfficeId s of
           Some b \<Rightarrow> Some b
         | None \<Rightarrow> Option.bind initialData ag_branchOfficeId),
      ag_projectId =
        (case g_selectedProjectId g of
           Some p \<Rightarrow> Some p
         | None \<Rightarrow> Option.bind initialData ag_projectId),
      ag_department = or_default (map_option ag_department initialData) ''Legal'',
      ag_owner = or_default (map_option ag_owner initialData) ''Current User'',
      ag_effectiveDate = or_default (map_option ag_effectiveDate initialData) today,
      ag_renewalDate = or_default (map_option ag_renewalDate initialData) in_a_year,
      ag_value = Some (nullish (Option.bind initialData ag_value) 15000),
      ag_riskLevel = g_riskLevel g,
      ag_status = or_default (map_option ag_status initialData) ''Draft'',
      ag_sections = Some (g_sections g),
      ag_tags =
        Some (case Option.bind initialData ag_tags of
                Some (t # ts) \<Rightarrow> t # ts
              | _ \<Rightarrow> [g_type g]),
      ag_version =
        Some (case Option.bind initialData ag_version of
                Some v \<Rightarrow> if v = 0 then 1 else v
              | None \<Rightarrow> 1),
      ag_createdAt = (case initialData of Some a \<Rightarrow> ag_createdAt a | None \<Rightarrow> now),
      ag_updatedAt = now,
      ag_comments = Some (nullish (Option.bind initialData ag_comments) []),
      ag_auditLog = Some (nullish (Option.bind initialData ag_auditLog) [])\<rparr>"

text \<open>\<^verbatim>\<open>App.handleSaveAgreement\<close>, the \<^verbatim>\<open>onSave\<close> the generator is given.\<close>

definition handleSaveAgreement ::
  "session \<Rightarrow> agreement \<Rightarrow> nat \<Rightarrow> db \<Rightarrow> agreement handled \<times> db" where
  "handleSaveAgreement s agreement now d =
     (case s_organization s of
        None \<Rightarrow> (Ignored, d)
      | Some org \<Rightarrow>
          if o_id org = [] then (Ignored, d)
          else
            (case upsertAgreementForOrganization agreement (o_id org) (s_user s) now d of
               (Inl e, d') \<Rightarrow> (Failed ''Failed to save agreement. Please try again.'', d')
             | (Inr saved, d') \<Rightarrow> (Submitted saved, d')))"

definition generator_handleSave ::
  "session \<Rightarrow> agreement option \<Rightarrow> generator_state \<Rightarrow> string \<Rightarrow> string \<Rightarrow> string \<Rightarrow> nat \<Rightarrow> db \<Rightarrow>
   agreement handled \<times> db" where
  "generator_handleSave s initialData g generated_id today in_a_year now d =
     handleSaveAgreement s (newAgreement s initialData g generated_id today in_a_year now) now d"

text \<open>What a caller must never see as null in a returned agreement.\<close>

definition fully_defaulted :: "agreement \<Rightarrow> bool" where
  "fully_defaulted a =
     (ag_sections a \<noteq> None \<and> ag_tags a \<noteq> None \<and> ag_comments a \<noteq> None \<and>
      ag_auditLog a \<noteq> None \<and> ag_value a \<noteq> None \<and> ag_version a \<noteq> None)"

subsection \<open>Memberships (\<^verbatim>\<open>organizationService\<close>)\<close>

text \<open>\<^verbatim>\<open>.maybeSingle()\<close>: no row is \<open>None\<close>, one row is that row, more rows are an error;
  \<^verbatim>\<open>.single()\<close> wants exactly one row.\<close>

definition maybeSingle :: "'r list \<Rightarrow> error + 'r option" where
  "maybeSingle rows =
     (case rows of
        [] \<Rightarrow> Inr None
      | [r] \<Rightarrow> Inr (Some r)
      | _ \<Rightarrow> Inl (Failure ''JSON object requested, multiple (or no) rows returned''))"

definition single :: "'r list \<Rightarrow> error + 'r" where
  "single rows =
     (case rows of
        [r] \<Rightarrow> Inr r
      | _ \<Rightarrow> Inl (Failure ''JSON object requested, multiple (or no) rows returned''))"

text \<open>\<^verbatim>\<open>fetchMembershipForUser\<close>: the membership row of the user with its organization
  joined through \<^verbatim>\<open>organization_id\<close>.\<close>

definition fetchMembershipForUser ::
  "string \<Rightarrow> nat \<Rightarrow> db \<Rightarrow> error + (organization option \<times> member_row option)" where
  "fetchMembershipForUser userId now d =
     (case outage d of
        Some e \<Rightarrow> Inl (Backend e)
      | None \<Rightarrow>
          (case maybeSingle (filter (\<lambda>m. m_user_id m = userId) (organization_members d)) of
             Inl e \<Rightarrow> Inl e
           | Inr None \<Rightarrow> Inr (None, None)
           | Inr (Some data) \<Rightarrow>
               (let joined = find (\<lambda>g. o_id g = m_organization_id data) (organizations d);
                    member =
                      \<lparr>m_id = m_id data, m_organization_id = m_organization_id data,
                       m_user_id = userId, m_role = m_role data,
                       m_branch_office_id = m_branch_office_id data,
                       m_department = m_department data,
                       m_created_at =
                         (case joined of Some g \<Rightarrow> o_created_at g | None \<Rightarrow> now)\<rparr>
                in Inr (joined, Some member))))"

record membership_payload =
  mp_userId :: string
  mp_organizationId :: string
  mp_role :: role
  mp_branchOfficeId :: "string option"
  mp_department :: "string option"

text \<open>\<^verbatim>\<open>ensureMembership\<close>: an upsert with \<^verbatim>\<open>onConflict: 'user_id,organization_id'\<close>. A row
  with the payload's user and organization is updated in place, otherwise a row is
  inserted.\<close>

definition ensureMembership ::
  "membership_payload \<Rightarrow> string \<Rightarrow> nat \<Rightarrow> db \<Rightarrow> (error + member_row) \<times> db" where
  "ensureMembership payload new_id now d =
     (case outage d of
        Some e \<Rightarrow> (Inl (Backend e), d)
      | None \<Rightarrow>
          (let same = (\<lambda>m. m_user_id m = mp_userId payload \<and>
                            m_organization_id m = mp_organizationId payload)
           in if list_ex same (organization_members d)
              then
                (let d' = d\<lparr>organization_members :=
                             map (\<lambda>m. if same m
                                       then m\<lparr>m_role := mp_role payload,
                                              m_branch_office_id := mp_branchOfficeId payload,
                                              m_department := mp_department payload\<rparr>
                                       else m) (organization_members d)\<rparr>
                 in (single (filter same (organization_members d')), d'))
              else
                (let data =
                   \<lparr>m_id = new_id, m_organization_id = mp_organizationId payload,
                    m_user_id = mp_userId payload, m_role = mp_role payload,
                    m_branch_office_id = mp_branchOfficeId payload,
                    m_department = mp_department payload, m_created_at = now\<rparr>
                 in (Inr data, d\<lparr>organization_members := organization_members d @ [data]\<rparr>))))"

subsection \<open>The membership resolver (\<^verbatim>\<open>AuthContext.hydrateMembership\<close>)\<close>

record auth_state =
  organization :: "organization option"
  memberRole :: "role option"
  branchOfficeId_of :: "string option"

definition signed_out :: auth_state where
  "signed_out = \<lparr>organization = None, memberRole = None, branchOfficeId_of = None\<rparr>"

text \<open>The provider is mounted. Every path sets all three fields, so the resulting state
  does not depend on the one before.\<close>

definition hydrateMembership ::
  "string option \<Rightarrow> string \<Rightarrow> nat \<Rightarrow> db \<Rightarrow> auth_state \<times> db" where
  "hydrateMembership userId new_id now d =
     (case userId of
        None \<Rightarrow> (signed_out, d)
      | Some uid \<Rightarrow>
          (case fetchMembershipForUser uid now d of
             Inl e \<Rightarrow> (signed_out, d)
           | Inr (org, member) \<Rightarrow>
               (let st = \<lparr>organization = org,
                          memberRole = map_option m_role member,
                          branchOfficeId_of = Option.bind member m_branch_office_id\<rparr>
                in case org of
                     Some og \<Rightarrow> (st, d)
                   | None \<Rightarrow>
                       (case maybeSingle (filter (\<lambda>g. o_user_id g = uid) (organizations d)) of
                          Inl e \<Rightarrow> (signed_out, d)
                        | Inr None \<Rightarrow> (st, d)
                        | Inr (Some data) \<Rightarrow>
                            (case ensureMembership
                                    \<lparr>mp_userId = uid, mp_organizationId = o_id data,
                                     mp_role = Org_admin, mp_branchOfficeId = None,
                                     mp_department = None\<rparr> new_id now d of
                               (Inl e, d') \<Rightarrow> (signed_out, d')
                             | (Inr m, d') \<Rightarrow>
                                 (\<lparr>organization = Some data, memberRole = Some Org_admin,
                                   branchOfficeId_of = None\<rparr>, d'))))))"

text \<open>The uniqueness the table enforces: one membership row per user and organization.\<close>

definition member_key :: "member_row \<Rightarrow> string \<times> string" where
  "member_key m = (m_user_id m, m_organization_id m)"

subsection \<open>Invitations\<close>

fun role_text :: "role \<Rightarrow> string" where
  "role_text Org_admin = ''org_admin''"
| "role_text Branch_admin = ''branch_admin''"
| "role_text Branch_user = ''branch_user''"

fun invite_col :: "invite_row \<Rightarrow> string \<Rightarrow> string option" where
  "invite_col r k =
     (if k = ''id'' then Some (i_id r)
      else if k = ''organization_id'' then Some (i_organization_id r)
      else if k = ''branch_office_id'' then Some (i_branch_office_id r)
      else if k = ''invite_token'' then Some (i_invite_token r)
      else if k = ''role'' then Some (role_text (i_role r))
      else None)"

record invite_payload =
  ip_organizationId :: string
  ip_branchOfficeId :: string
  ip_email :: string
  ip_inviteToken :: string
  ip_role :: role
  ip_fullName :: "string option"
  ip_department :: "string option"
  ip_title :: "string option"

text \<open>\<^verbatim>\<open>createBranchInvite\<close>: an insert; \<^verbatim>\<open>invite_token\<close> is unique and \<^verbatim>\<open>status\<close> defaults
  to \<^verbatim>\<open>pending\<close>.\<close>

definition createBranchInvite ::
  "invite_payload \<Rightarrow> string \<Rightarrow> nat \<Rightarrow> db \<Rightarrow> (error + invite_row) \<times> db" where
  "createBranchInvite payload new_id now d =
     (case outage d of
        Some e \<Rightarrow> (Inl (Backend e), d)
      | None \<Rightarrow>
          if list_ex (\<lambda>i. i_invite_token i = ip_inviteToken payload) (branch_invites d)
          then (Inl (Failure ''duplicate key value violates unique constraint''), d)
          else
            (let data =
               \<lparr>i_id = new_id,
                i_organization_id = ip_organizationId payload,
                i_branch_office_id = ip_branchOfficeId payload,
                i_email = ip_email payload,
                i_role = ip_role payload,
                i_full_name = Option.bind (ip_fullName payload) non_empty,
                i_department = Option.bind (ip_department payload) non_empty,
                i_title = Option.bind (ip_title payload) non_empty,
                i_contact_email = Some (ip_email payload),
                i_invite_token = ip_inviteToken payload,
                i_status = Pending,
                i_user_id = None,
                i_created_at = now,
                i_accepted_at = None\<rparr>
             in (Inr data, d\<lparr>branch_invites := branch_invites d @ [data]\<rparr>)))"

definition fetchBranchInvites ::
  "string \<Rightarrow> role option \<Rightarrow> db \<Rightarrow> error + invite_row list" where
  "fetchBranchInvites office roleFilter d =
     (case outage d of
        Some e \<Rightarrow> Inl (Backend e)
      | None \<Rightarrow>
          (let request = q_eq ''branch_office_id'' office select_all;
               request = (case roleFilter of
                            Some r \<Rightarrow> q_eq ''role'' (role_text r) request
                          | None \<Rightarrow> request)
           in execute invite_col i_created_at (q_order_created_desc request)
                (branch_invites d)))"

text \<open>\<^verbatim>\<open>fetchInviteByToken\<close>: the invite with this token, whatever its status. (The joined
  branch office and organization are only displayed.)\<close>

definition fetchInviteByToken :: "string \<Rightarrow> db \<Rightarrow> error + invite_row option" where
  "fetchInviteByToken token d =
     (case outage d of
        Some e \<Rightarrow> Inl (Backend e)
      | None \<Rightarrow>
          (case execute invite_col i_created_at (q_eq ''invite_token'' token select_all)
                  (branch_invites d) of
             Inl e \<Rightarrow> Inl e
           | Inr data \<Rightarrow> maybeSingle data))"

definition markInviteAccepted ::
  "string \<Rightarrow> string \<Rightarrow> nat \<Rightarrow> db \<Rightarrow> (error + invite_row) \<times> db" where
  "markInviteAccepted inviteId userId now d =
     (case outage d of
        Some e \<Rightarrow> (Inl (Backend e), d)
      | None \<Rightarrow>
          (let d' = d\<lparr>branch_invites :=
                       map (\<lambda>i. if i_id i = inviteId
                                 then i\<lparr>i_status := Accepted, i_user_id := Some userId,
                                        i_accepted_at := Some now\<rparr>
                                 else i) (branch_invites d)\<rparr>
           in (single (filter (\<lambda>i. i_id i = inviteId) (branch_invites d')), d')))"

subsection \<open>Accepting an invitation (\<^verbatim>\<open>BranchInvite\<close>)\<close>

record invite_view =
  inviteError :: "string option"
  inviteDetails :: "invite_row option"
  success :: bool

definition loadInvite :: "string \<Rightarrow> db \<Rightarrow> invite_view" where
  "loadInvite token d =
     (case fetchInviteByToken token d of
        Inl e \<Rightarrow> \<lparr>inviteError = Some (error_message e), inviteDetails = None, success = False\<rparr>
      | Inr None \<Rightarrow>
          \<lparr>inviteError = Some ''This invitation could not be found or has been revoked.'',
           inviteDetails = None, success = False\<rparr>
      | Inr (Some invite) \<Rightarrow>
          if i_status invite = Accepted
          then \<lparr>inviteError = Some ''This invitation has already been accepted.'',
                inviteDetails = None, success = False\<rparr>
          else \<lparr>inviteError = None, inviteDetails = Some invite, success = False\<rparr>)"

text \<open>\<^verbatim>\<open>handleAccept\<close>. The authentication service is external: \<open>signUp\<close> gives, for an
  e-mail address and a password, an error or the new user's id (which may be missing).\<close>

definition handleAccept ::
  "invite_view \<Rightarrow> string \<Rightarrow> string \<Rightarrow> (string \<Rightarrow> string \<Rightarrow> error + string option) \<Rightarrow>
   string \<Rightarrow> nat \<Rightarrow> db \<Rightarrow> invite_view \<times> db" where
  "handleAccept view password confirmPassword signUp new_id now d =
     (case inviteDetails view of
        None \<Rightarrow> (view, d)
      | Some invite \<Rightarrow>
          if password = [] \<or> length password < 6
          then (view\<lparr>inviteError := Some ''Password must be at least 6 characters.''\<rparr>, d)
          else if password \<noteq> confirmPassword
          then (view\<lparr>inviteError := Some ''Passwords do not match.''\<rparr>, d)
          else
            (case signUp (i_email invite) password of
               Inl e \<Rightarrow> (view\<lparr>inviteError := Some (error_message e)\<rparr>, d)
             | Inr None \<Rightarrow>
                 (view\<lparr>inviteError := Some ''Sign up succeeded but no user id returned.''\<rparr>, d)
             | Inr (Some userId) \<Rightarrow>
                 (case ensureMembership
                         \<lparr>mp_userId = userId,
                          mp_organizationId = i_organization_id invite,
                          mp_role = (if i_role invite = Branch_user then Branch_user
                                     else Branch_admin),
                          mp_branchOfficeId = Some (i_branch_office_id invite),
                          mp_department = Option.bind (i_department invite) non_empty\<rparr>
                         new_id now d of
                    (Inl e, d1) \<Rightarrow> (view\<lparr>inviteError := Some (error_message e)\<rparr>, d1)
                  | (Inr m, d1) \<Rightarrow>
                      (case markInviteAccepted (i_id invite) userId now d1 of
                         (Inl e, d2) \<Rightarrow> (view\<lparr>inviteError := Some (error_message e)\<rparr>, d2)
                       | (Inr i, d2) \<Rightarrow> (view\<lparr>inviteError := None, success := True\<rparr>, d2)))))"

subsection \<open>Creating an invitation (\<^verbatim>\<open>OfficeManager.handleCreateInvite\<close>)\<close>

record branch_office =
  bo_id :: string
  bo_organization_id :: string
  bo_identifier :: string
  bo_location :: string
  bo_headcount :: "nat option"
  bo_created_at :: nat
  bo_updated_at :: nat

record office_view =
  ov_inviteError :: "string option"
  ov_inviteLink :: "string option"
  ov_inviteEmail :: string
  ov_adminInvites :: "invite_row list"

record invite_email =
  em_email :: string
  em_inviteLink :: string
  em_branchIdentifier :: string
  em_organizationName :: string

text \<open>\<^verbatim>\<open>supabase.functions.invoke('send-branch-invite', ...)\<close> is external: the promise
  resolves, with or without an error in its result, or rejects.\<close>

datatype invoke_result = Invoke_resolved "string option" | Invoke_rejected string

definition handleCreateInvite ::
  "organization option \<Rightarrow> branch_office option \<Rightarrow> office_view \<Rightarrow> string \<Rightarrow> string \<Rightarrow>
   (invite_email \<Rightarrow> invoke_result) \<Rightarrow> string \<Rightarrow> nat \<Rightarrow> db \<Rightarrow> office_view \<times> db" where
  "handleCreateInvite org selectedOffice view token origin invoke new_id now d =
     (case (org, selectedOffice) of
        (Some og, Some office) \<Rightarrow>
          if ov_inviteEmail view = []
          then (view\<lparr>ov_inviteError := Some ''Email is required to invite an admin.''\<rparr>, d)
          else
            (let view1 = view\<lparr>ov_inviteError := None, ov_inviteLink := None\<rparr>
             in case createBranchInvite
                  \<lparr>ip_organizationId = o_id og,
                   ip_branchOfficeId = bo_id office,
                   ip_email = toLowerCase (trim (ov_inviteEmail view)),
                   ip_inviteToken = token,
                   ip_role = Branch_admin,
                   ip_fullName = None, ip_department = None, ip_title = None\<rparr>
                  new_id now d of
                  (Inl e, d') \<Rightarrow> (view1\<lparr>ov_inviteError := Some (error_message e)\<rparr>, d')
                | (Inr created, d') \<Rightarrow>
                    (let link = origin @ ''/#/invite/'' @ token;
                         view2 = view1\<lparr>ov_inviteLink := Some link, ov_inviteEmail := []\<rparr>;
                         view3 =
                           (case invoke
                                   \<lparr>em_email = toLowerCase (trim (ov_inviteEmail view)),
                                    em_inviteLink = link,
                                    em_branchIdentifier = bo_identifier office,
                                    em_organizationName = o_name og\<rparr> of
                              Invoke_rejected fnError \<Rightarrow>
                                view2\<lparr>ov_inviteError := Some (''Invite saved, but email delivery failed. '' @
                                  ''Copy the link below and share it manually.'')\<rparr>
                            | Invoke_resolved r \<Rightarrow> view2)
                     in case fetchBranchInvites (bo_id office) (Some Branch_admin) d' of
                          Inl e \<Rightarrow> (view3\<lparr>ov_inviteError := Some (error_message e)\<rparr>, d')
                        | Inr data \<Rightarrow> (view3\<lparr>ov_adminInvites := data\<rparr>, d')))
      | _ \<Rightarrow> (view, d))"

subsection \<open>The scope filter policy\<close>

text \<open>The five cases of the policy, in the order of the specification; a scope of
  \<^verbatim>\<open>all\<close> matches none of them, so nothing is added to the query.\<close>

datatype branch_filter =
    Branch_equals string
  | Branch_not_null
  | Branch_is_null
  | Branch_equals_or_null string
  | No_branch_filter

fun scope_policy :: "scope option \<Rightarrow> string option \<Rightarrow> branch_filter" where
  "scope_policy (Some Scope_branch) (Some x) = Branch_equals x"
| "scope_policy (Some Scope_branch) None = Branch_not_null"
| "scope_policy (Some Scope_organization) b = Branch_is_null"
| "scope_policy None (Some x) = Branch_equals_or_null x"
| "scope_policy None None = No_branch_filter"
| "scope_policy (Some Scope_all) b = No_branch_filter"

fun admits :: "branch_filter \<Rightarrow> string option \<Rightarrow> bool" where
  "admits (Branch_equals x) b = (b = Some x)"
| "admits Branch_not_null b = (b \<noteq> None)"
| "admits Branch_is_null b = (b = None)"
| "admits (Branch_equals_or_null x) b = (b = Some x \<or> b = None)"
| "admits No_branch_filter b = True"

text \<open>The branch office id a caller gave: null, undefined and the empty string all mean
  that none was given.\<close>

definition given_branch :: "string option \<Rightarrow> string option" where
  "given_branch b = (if truthy b then b else None)"



text \<open>An id that a logic filter reads back as it was written: it holds no comma and no
  closing parenthesis and does not start with a double quote or an opening brace. The id
  is written into a logic filter only when no scope is asked for.\<close>

definition plain_id :: "string \<Rightarrow> bool" where
  "plain_id x =
     (CHR '','' \<notin> set x \<and> CHR '')'' \<notin> set x \<and>
      (case x of [] \<Rightarrow> True | c # cs \<Rightarrow> c \<noteq> CHR 0x22 \<and> c \<noteq> CHR ''{''))"

definition splice_safe :: "scope option \<Rightarrow> string option \<Rightarrow> bool" where
  "splice_safe sc b =
     (case sc of
        Some s \<Rightarrow> True
      | None \<Rightarrow> (case b of None \<Rightarrow> True | Some x \<Rightarrow> plain_id x))"


text \<open>The row an invitation starts as.\<close>

definition pending_invite ::
  "string \<Rightarrow> string \<Rightarrow> string \<Rightarrow> string \<Rightarrow> string \<Rightarrow> nat \<Rightarrow> invite_row" where
  "pending_invite new_id org office email token now =
     \<lparr>i_id = new_id, i_organization_id = org, i_branch_office_id = office, i_email = email,
      i_role = Branch_admin, i_full_name = None, i_department = None, i_title = None,
      i_contact_email = Some email, i_invite_token = token, i_status = Pending,
      i_user_id = None, i_created_at = now, i_accepted_at = None\<rparr>"

subsection \<open>Fixtures\<close>

definition example_vendor :: "string \<Rightarrow> string option \<Rightarrow> nat \<Rightarrow> vendor_row" where
  "example_vendor i b t =
     \<lparr>v_id = i, v_organization_id = ''org-1'', v_branch_office_id = b, v_name = i,
      v_tin = ''100'', v_contact_email = None, v_contact_phone = None, v_notes = None,
      v_documents = Some [], v_created_by = None, v_created_at = t, v_updated_at = t\<rparr>"

definition example_project :: "string \<Rightarrow> string option \<Rightarrow> nat \<Rightarrow> project_row" where
  "example_project i b t =
     \<lparr>p_id = i, p_organization_id = ''org-1'', p_branch_office_id = b, p_name = i,
      p_description = None, p_status = Active, p_start_date = None, p_end_date = None,
      p_created_by = None, p_created_at = t, p_updated_at = t\<rparr>"

definition example_agreement :: "string \<Rightarrow> string option \<Rightarrow> nat \<Rightarrow> agreement_row" where
  "example_agreement i b t =
     \<lparr>a_id = i, a_organization_id = ''org-1'', a_branch_office_id = b, a_project_id = None,
      a_owner_user_id = None, a_title = i, a_counterparty = ''Acme'', a_department = None,
      a_owner = None, a_effective_date = None, a_renewal_date = None, a_value = None,
      a_risk_level = ''Low'', a_status = ''Draft'', a_sections = None, a_tags = None,
      a_version = None, a_comments = None, a_audit_log = None, a_created_at = t,
      a_updated_at = t\<rparr>"

definition example_db :: db where
  "example_db =
     \<lparr>organizations = [], organization_members = [], branch_invites = [],
      vendors = [example_vendor ''v1'' (Some ''B1'') 1, example_vendor ''v2'' (Some ''B2'') 2,
                 example_vendor ''v3'' None 3],
      projects = [example_project ''p1'' (Some ''B1'') 1, example_project ''p2'' (Some ''B2'') 2,
                  example_project ''p3'' None 3],
      agreements = [example_agreement ''a1'' (Some ''B1'') 1,
                    example_agreement ''a2'' (Some ''B2'') 2, example_agreement ''a3'' None 3],
      outage = None\<rparr>"


definition example_doc :: "string \<Rightarrow> vendor_document" where
  "example_doc i =
     \<lparr>doc_id = i, doc_name = i, doc_url = ''https://files.example/'' @ i,
      doc_uploaded_at = 1, doc_mime_type = Some ''application/pdf''\<rparr>"

definition vendor_with_two_docs :: vendor_row where
  "vendor_with_two_docs =
     (example_vendor ''v1'' (Some ''B1'') 1)\<lparr>v_documents := Some [example_doc ''d1'', example_doc ''d2'']\<rparr>"

definition two_files :: "upload_file list" where
  "two_files = [\<lparr>file_name = ''w9.pdf'', file_type = ''application/pdf''\<rparr>,
                \<lparr>file_name = ''nda.pdf'', file_type = ''application/pdf''\<rparr>]"

definition upload_ok :: "string \<Rightarrow> upload_file \<Rightarrow> error + string" where
  "upload_ok vid f = Inr (''https://files.example/'' @ vid @ ''/'' @ file_name f)"

definition example_world :: world where
  "example_world = \<lparr>store = example_db\<lparr>vendors := [vendor_with_two_docs]\<rparr>, bucket = []\<rparr>"

definition example_view :: vendor_view where
  "example_view =
     \<lparr>view_vendors = [rowToVendor vendor_with_two_docs], docError = None,
      uploadingVendorId = None\<rparr>"

definition example_org :: organization where
  "example_org =
     \<lparr>o_id = ''org-1'', o_user_id = ''u-1'', o_name = ''LexCorp'', o_hq_location = ''Nairobi'',
      o_plan = ''monthly'', o_created_at = 0, o_updated_at = 0\<rparr>"

definition branch_admin_session :: session where
  "branch_admin_session =
     \<lparr>s_organization = Some example_org, s_memberRole = Some Branch_admin,
      s_branchOfficeId = Some ''B1'', s_user = Some ''u-7''\<rparr>"

definition org_admin_session :: session where
  "org_admin_session =
     \<lparr>s_organization = Some example_org, s_memberRole = Some Org_admin,
      s_branchOfficeId = None, s_user = Some ''u-1''\<rparr>"

definition branchless_admin_session :: session where
  "branchless_admin_session = branch_admin_session\<lparr>s_branchOfficeId := None\<rparr>"

definition example_generator :: generator_state where
  "example_generator =
     \<lparr>g_title = ''Supply agreement'', g_counterparty = ''Acme'',
      g_type = ''Service Agreement'', g_sections = [], g_riskLevel = ''Low'',
      g_selectedProjectId = None\<rparr>"

definition example_invite :: "invite_status \<Rightarrow> invite_row" where
  "example_invite st =
     \<lparr>i_id = ''inv-1'', i_organization_id = ''org-1'', i_branch_office_id = ''B1'',
      i_email = ''ann@example.com'', i_role = Branch_user, i_full_name = Some ''Ann'',
      i_department = Some ''Finance'', i_title = None,
      i_contact_email = Some ''ann@example.com'', i_invite_token = ''tok-1'', i_status = st,
      i_user_id = None, i_created_at = 4, i_accepted_at = None\<rparr>"

definition invite_db :: "invite_status \<Rightarrow> db" where
  "invite_db st = example_db\<lparr>organizations := [example_org], branch_invites := [example_invite st]\<rparr>"

definition signUp_ok :: "string \<Rightarrow> string \<Rightarrow> error + string option" where
  "signUp_ok email password = Inr (Some ''u-9'')"

definition owner_db :: db where
  "owner_db =
     example_db\<lparr>organizations := [example_org],
                organization_members :=
                  [\<lparr>m_id = ''m-0'', m_organization_id = ''org-1'', m_user_id = ''u-7'',
                    m_role = Branch_admin, m_branch_office_id = Some ''B1'',
                    m_department = None, m_created_at = 1\<rparr>]\<rparr>"

definition example_office :: branch_office where
  "example_office =
     \<lparr>bo_id = ''B1'', bo_organization_id = ''org-1'', bo_identifier = ''NYC-01'',
      bo_location = ''New York, US'', bo_headcount = Some 12, bo_created_at = 1,
      bo_updated_at = 1\<rparr>"

definition example_office_view :: office_view where
  "example_office_view =
     \<lparr>ov_inviteError = None, ov_inviteLink = None, ov_inviteEmail = ''Bo@Example.com'',
      ov_adminInvites = []\<rparr>"

definition smtp_down :: "invite_email \<Rightarrow> invoke_result" where
  "smtp_down req = Invoke_rejected ''Failed to send a request to the Edge Function''"

section \<open>Properties\<close>

subsection \<open>Helper lemmas\<close>

lemmas builder_defs = Let_def q_order_created_desc_def truthy_def
  q_eq_def q_is_null_def q_not_is_null_def q_or_def q_in_def select_all_def

lemma status_text_eq [simp]: "status_text a = status_text b \<longleftrightarrow> a = b"
  by (cases a; cases b) simp_all

lemma status_text_mem [simp]: "status_text a \<in> status_text ` S \<longleftrightarrow> a \<in> S"
  by auto

text \<open>A plain id comes back from the logic filter as written.\<close>

lemma logic_value_plain:
  assumes "plain_id x"
  shows "logic_value (x @ CHR '','' # t) = (x, CHR '','' # t)"
proof -
  have tw: "takeWhile (\<lambda>c. c \<noteq> CHR '','' \<and> c \<noteq> CHR '')'') (x @ CHR '','' # t) = x"
    using assms by (subst takeWhile_append2) (auto simp: plain_id_def)
  have dw: "dropWhile (\<lambda>c. c \<noteq> CHR '','' \<and> c \<noteq> CHR '')'') (x @ CHR '','' # t)
      = CHR '','' # t"
    using assms by (subst dropWhile_append2) (auto simp: plain_id_def)
  have q: "quoted_value (x @ CHR '','' # t) = None"
    using assms by (cases x) (auto simp: quoted_value_def plain_id_def)
  have p: "pg_array (x @ CHR '','' # t) = None"
    using assms by (cases x) (auto simp: pg_array_def plain_id_def)
  show ?thesis
    by (simp only: logic_value_def q p raw_value_def tw dw option.case)
qed

lemma field_ok: "list_all field_char ''branch_office_id''"
  by code_simp

lemma parse_branch_or_null:
  assumes "plain_id x"
  shows "parse_filters (branch_or_null x)
           = Some [Alt_eq ''branch_office_id'' x, Alt_is_null ''branch_office_id'']"
proof -
  have lv: "logic_value (x @ '',branch_office_id.is.null'')
              = (x, '',branch_office_id.is.null'')"
    using logic_value_plain [OF assms, of "''branch_office_id.is.null''"] by simp
  have first: "parse_filter (''branch_office_id.eq.'' @ x @ '',branch_office_id.is.null'')
      = Some (Alt_eq ''branch_office_id'' x, '',branch_office_id.is.null'')"
    using field_ok by (simp add: parse_filter_def Let_def lv)
  have lv2: "logic_value ''null'' = (''null'', [])"
    by (simp add: logic_value_def quoted_value_def pg_array_def raw_value_def)
  have second: "parse_filter ''branch_office_id.is.null''
      = Some (Alt_is_null ''branch_office_id'', [])"
    using field_ok by (simp add: parse_filter_def Let_def lv2)
  have tail: "parse_filters ''branch_office_id.is.null''
      = Some [Alt_is_null ''branch_office_id'']"
    unfolding parse_filters.simps [of "''branch_office_id.is.null''"] second by simp
  show ?thesis
    unfolding branch_or_null_def parse_filters.simps
      [of "''branch_office_id.eq.'' @ x @ '',branch_office_id.is.null''"] first
    by (simp add: tail)
qed


lemma run_query_vendors:
  "run_query vendor_col v_created_at (fetchVendors_query params) rows =
     order_desc v_created_at
       (filter (\<lambda>r. list_all (holds (vendor_col r)) (conds (fetchVendors_query params))) rows)"
  by (simp add: run_query_def fetchVendors_query_def Let_def q_order_created_desc_def
      q_eq_def q_is_null_def q_not_is_null_def q_or_def select_all_def)

lemma run_query_projects:
  "run_query project_col p_created_at (fetchProjects_query params) rows =
     order_desc p_created_at
       (filter (\<lambda>r. list_all (holds (project_col r)) (conds (fetchProjects_query params))) rows)"
  by (simp add: run_query_def fetchProjects_query_def Let_def q_order_created_desc_def
      q_eq_def q_is_null_def q_not_is_null_def q_or_def q_in_def select_all_def
      split: option.splits list.splits)

lemma conds_vendors:
  assumes "splice_safe sc b"
  shows "list_all (holds (vendor_col r))
     (conds (fetchVendors_query \<lparr>organizationId = org, branchOfficeId = b, scope = sc\<rparr>))
   = (v_organization_id r = org \<and>
      admits (scope_policy sc (given_branch b)) (v_branch_office_id r))"
    and "list_all well_formed
     (conds (fetchVendors_query \<lparr>organizationId = org, branchOfficeId = b, scope = sc\<rparr>))"
proof -
  have "list_all (holds (vendor_col r))
     (conds (fetchVendors_query \<lparr>organizationId = org, branchOfficeId = b, scope = sc\<rparr>))
   = (v_organization_id r = org \<and>
      admits (scope_policy sc (given_branch b)) (v_branch_office_id r))
   \<and> list_all well_formed
     (conds (fetchVendors_query \<lparr>organizationId = org, branchOfficeId = b, scope = sc\<rparr>))"
  proof (cases sc)
    case None
    show ?thesis
    proof (cases b)
      case none: None
      with None show ?thesis
        by (simp add: fetchVendors_query_def builder_defs given_branch_def)
    next
      case (Some x)
      with None assms have "plain_id x" by (simp add: splice_safe_def)
      with None Some show ?thesis
        by (cases "x = []")
           (auto simp: fetchVendors_query_def builder_defs given_branch_def parse_branch_or_null)
    qed
  next
    case (Some s)
    then show ?thesis
      by (cases s; cases b)
         (auto simp: fetchVendors_query_def builder_defs given_branch_def)
  qed
  then show "list_all (holds (vendor_col r))
     (conds (fetchVendors_query \<lparr>organizationId = org, branchOfficeId = b, scope = sc\<rparr>))
   = (v_organization_id r = org \<and>
      admits (scope_policy sc (given_branch b)) (v_branch_office_id r))"
    and "list_all well_formed
     (conds (fetchVendors_query \<lparr>organizationId = org, branchOfficeId = b, scope = sc\<rparr>))"
    by simp_all
qed

lemma conds_projects:
  assumes "splice_safe sc b"
  shows "list_all (holds (project_col r))
     (conds (fetchProjects_query
        \<lparr>organizationId = org, branchOfficeId = b, scope = sc, statuses = st\<rparr>))
   = (p_organization_id r = org \<and>
      admits (scope_policy sc (given_branch b)) (p_branch_office_id r) \<and>
      (case st of Some (s # ss) \<Rightarrow> p_status r \<in> set (s # ss) | _ \<Rightarrow> True))"
    and "list_all well_formed
     (conds (fetchProjects_query
        \<lparr>organizationId = org, branchOfficeId = b, scope = sc, statuses = st\<rparr>))"
proof -
  have "list_all (holds (project_col r))
     (conds (fetchProjects_query
        \<lparr>organizationId = org, branchOfficeId = b, scope = sc, statuses = st\<rparr>))
   = (p_organization_id r = org \<and>
      admits (scope_policy sc (given_branch b)) (p_branch_office_id r) \<and>
      (case st of Some (s # ss) \<Rightarrow> p_status r \<in> set (s # ss) | _ \<Rightarrow> True))
   \<and> list_all well_formed
     (conds (fetchProjects_query
        \<lparr>organizationId = org, branchOfficeId = b, scope = sc, statuses = st\<rparr>))"
  proof (cases sc)
    case None
    show ?thesis
    proof (cases b)
      case none: None
      with None show ?thesis
        by (auto simp: fetchProjects_query_def builder_defs given_branch_def
            split: option.splits list.splits)
    next
      case (Some x)
      with None assms have "plain_id x" by (simp add: splice_safe_def)
      with None Some show ?thesis
        by (cases "x = []")
           (auto simp: fetchProjects_query_def builder_defs given_branch_def parse_branch_or_null
            split: option.splits list.splits)
    qed
  next
    case (Some s)
    then show ?thesis
      by (cases s; cases b)
         (auto simp: fetchProjects_query_def builder_defs given_branch_def
          split: option.splits list.splits)
  qed
  then show "list_all (holds (project_col r))
     (conds (fetchProjects_query
        \<lparr>organizationId = org, branchOfficeId = b, scope = sc, statuses = st\<rparr>))
   = (p_organization_id r = org \<and>
      admits (scope_policy sc (given_branch b)) (p_branch_office_id r) \<and>
      (case st of Some (s # ss) \<Rightarrow> p_status r \<in> set (s # ss) | _ \<Rightarrow> True))"
    and "list_all well_formed
     (conds (fetchProjects_query
        \<lparr>organizationId = org, branchOfficeId = b, scope = sc, statuses = st\<rparr>))"
    by simp_all
qed



subsection \<open>Scope \<^verbatim>\<open>all\<close>\<close>

text \<open>
  Claim C9. In \<^verbatim>\<open>fetchVendors\<close> and \<^verbatim>\<open>fetchProjects\<close> a scope of \<^verbatim>\<open>all\<close> suppresses
  every branch filter, also when a branch office id is passed: the call returns what the
  same call without a branch office id returns (with scope \<^verbatim>\<open>all\<close> or with no scope
  at all, the organization admin's default), and that is every row of the
  organization (for projects, every row that passes the status filter, which is every
  row when no statuses are given), newest first.
\<close>

theorem scope_all_overrides_branch:
  "fetchVendors \<lparr>organizationId = org, branchOfficeId = b, scope = Some Scope_all\<rparr> d
     = fetchVendors \<lparr>organizationId = org, branchOfficeId = None, scope = Some Scope_all\<rparr> d
   \<and> fetchVendors \<lparr>organizationId = org, branchOfficeId = b, scope = Some Scope_all\<rparr> d
     = fetchVendors \<lparr>organizationId = org, branchOfficeId = None, scope = None\<rparr> d
   \<and> fetchVendors \<lparr>organizationId = org, branchOfficeId = b, scope = Some Scope_all\<rparr> d
     = (case outage d of
          Some e \<Rightarrow> Inl (Backend e)
        | None \<Rightarrow> Inr (map rowToVendor
            (order_desc v_created_at (filter (\<lambda>r. v_organization_id r = org) (vendors d)))))
   \<and> fetchProjects
        \<lparr>organizationId = org, branchOfficeId = b, scope = Some Scope_all, statuses = st\<rparr> d
     = fetchProjects
        \<lparr>organizationId = org, branchOfficeId = None, scope = Some Scope_all, statuses = st\<rparr> d
   \<and> fetchProjects
        \<lparr>organizationId = org, branchOfficeId = b, scope = Some Scope_all, statuses = st\<rparr> d
     = fetchProjects
        \<lparr>organizationId = org, branchOfficeId = None, scope = None, statuses = st\<rparr> d
   \<and> fetchProjects
        \<lparr>organizationId = org, branchOfficeId = b, scope = Some Scope_all, statuses = None\<rparr> d
     = (case outage d of
          Some e \<Rightarrow> Inl (Backend e)
        | None \<Rightarrow> Inr (map rowToProject
            (order_desc p_created_at (filter (\<lambda>r. p_organization_id r = org) (projects d)))))"
proof -
  have s1: "splice_safe (Some Scope_all) b'" "splice_safe None None" for b'
    by (simp_all add: splice_safe_def)
  have g: "scope_policy (Some Scope_all) (given_branch b') = No_branch_filter"
    "scope_policy None (given_branch None) = No_branch_filter" for b'
    by (simp_all add: given_branch_def truthy_def)
  show ?thesis
    by (simp add: fetchVendors_def fetchProjects_def execute_def run_query_vendors
        run_query_projects conds_vendors [OF s1(1)] conds_vendors [OF s1(2)]
        conds_projects [OF s1(1)] conds_projects [OF s1(2)] g split: option.splits)
qed

subsection \<open>The five-case scope filter\<close>




subsection \<open>Row conversion of agreements\<close>

lemma rowToAgreement_defaulted: "fully_defaulted (rowToAgreement row)"
  by (simp add: fully_defaulted_def rowToAgreement_def)

text \<open>
  Claim C10. Every agreement returned by \<^verbatim>\<open>fetchAgreementsForOrganization\<close> or by
  \<^verbatim>\<open>upsertAgreementForOrganization\<close> went through \<^verbatim>\<open>rowToAgreement\<close>, so its sections,
  tags, comments, audit log, value and version are never null; where the stored column
  is null the lists are empty, the value is 0 and the version is 1, and a stored value is
  passed on unchanged.
\<close>

theorem agreements_fully_defaulted:
  "(case fetchAgreementsForOrganization org options d of
      Inl e \<Rightarrow> True | Inr ags \<Rightarrow> list_all fully_defaulted ags)
   \<and> (case fst (upsertAgreementForOrganization agreement org owner now d) of
      Inl e \<Rightarrow> True | Inr a \<Rightarrow> fully_defaulted a)
   \<and> ag_sections (rowToAgreement row)
       = Some (case a_sections row of None \<Rightarrow> [] | Some v \<Rightarrow> v)
   \<and> ag_tags (rowToAgreement row) = Some (case a_tags row of None \<Rightarrow> [] | Some v \<Rightarrow> v)
   \<and> ag_comments (rowToAgreement row)
       = Some (case a_comments row of None \<Rightarrow> [] | Some v \<Rightarrow> v)
   \<and> ag_auditLog (rowToAgreement row)
       = Some (case a_audit_log row of None \<Rightarrow> [] | Some v \<Rightarrow> v)
   \<and> ag_value (rowToAgreement row) = Some (case a_value row of None \<Rightarrow> 0 | Some v \<Rightarrow> v)
   \<and> ag_version (rowToAgreement row)
       = Some (case a_version row of None \<Rightarrow> 1 | Some v \<Rightarrow> v)"
proof -
  have f: "case fetchAgreementsForOrganization org options d of
      Inl e \<Rightarrow> True | Inr ags \<Rightarrow> list_all fully_defaulted ags"
    by (simp add: fetchAgreementsForOrganization_def execute_def list_all_iff
        rowToAgreement_defaulted split: option.splits)
  have u: "case fst (upsertAgreementForOrganization agreement org owner now d) of
      Inl e \<Rightarrow> True | Inr a \<Rightarrow> fully_defaulted a"
    by (simp add: upsertAgreementForOrganization_def Let_def rowToAgreement_defaulted
        split: option.splits)
  show ?thesis
    using f u by (simp add: rowToAgreement_def nullish_def)
qed

theorem agreements_fully_defaulted_witness:
  "fetchAgreementsForOrganization ''org-1''
     (Some \<lparr>opt_branchOfficeId = Some ''B2'', opt_projectId = None\<rparr>) example_db
     = Inr [rowToAgreement (example_agreement ''a2'' (Some ''B2'') 2)]
   \<and> fully_defaulted (rowToAgreement (example_agreement ''a2'' (Some ''B2'') 2))
   \<and> ag_sections (rowToAgreement (example_agreement ''a2'' (Some ''B2'') 2)) = Some []
   \<and> ag_value (rowToAgreement (example_agreement ''a2'' (Some ''B2'') 2)) = Some 0
   \<and> ag_version (rowToAgreement (example_agreement ''a2'' (Some ''B2'') 2)) = Some 1"
  using agreements_fully_defaulted
    [of "''org-1''" "Some \<lparr>opt_branchOfficeId = Some ''B2'', opt_projectId = None\<rparr>" example_db
        "rowToAgreement (example_agreement ''a2'' (Some ''B2'') 2)" None 5
        "example_agreement ''a2'' (Some ''B2'') 2"]
  by (simp add: fetchAgreementsForOrganization_def execute_def run_query_def
      fetchAgreements_query_def builder_defs example_db_def order_desc_def
      example_agreement_def)

subsection \<open>The document cap\<close>

text \<open>
  Claim C6. A batch of files that would take a vendor's document count (that of the
  vendor the handler is given) above the cap of 3 is rejected as a whole before anything
  is uploaded or written: the row store and the bucket are what they were, so the
  vendor's stored document list is unchanged and no part of the batch is applied; the
  vendors shown are unchanged and the error is surfaced.
\<close>

theorem upload_over_cap_rejected:
  assumes "length (vendor_documents vendor) + length fs > MAX_DOCUMENTS"
  shows "snd (handleUploadDocuments vendor (Some fs) upload ids now (view, w)) = w
     \<and> view_vendors (fst (handleUploadDocuments vendor (Some fs) upload ids now (view, w)))
         = view_vendors view
     \<and> (fs = [] \<or> docError (fst (handleUploadDocuments vendor (Some fs) upload ids now (view, w)))
         = Some ''You can upload up to 3 files per vendor.'')"
  using assms by (cases fs) (simp_all add: handleUploadDocuments_def)

theorem upload_over_cap_rejected_witness:
  "length (vendor_documents (rowToVendor vendor_with_two_docs)) + length two_files > MAX_DOCUMENTS
   \<and> snd (handleUploadDocuments (rowToVendor vendor_with_two_docs) (Some two_files) upload_ok
          [''d3'', ''d4''] 9 (example_view, example_world)) = example_world
   \<and> map v_documents (vendors (store example_world))
       = [Some [example_doc ''d1'', example_doc ''d2'']]
   \<and> docError (fst (handleUploadDocuments (rowToVendor vendor_with_two_docs) (Some two_files)
          upload_ok [''d3'', ''d4''] 9 (example_view, example_world)))
       = Some ''You can upload up to 3 files per vendor.''"
proof -
  have h: "length (vendor_documents (rowToVendor vendor_with_two_docs)) + length two_files
      > MAX_DOCUMENTS"
    by (simp add: rowToVendor_def vendor_with_two_docs_def two_files_def MAX_DOCUMENTS_def)
  show ?thesis
    using h upload_over_cap_rejected [OF h, of upload_ok "[''d3'', ''d4'']" 9 example_view
        example_world]
    by (simp add: two_files_def example_world_def vendor_with_two_docs_def)
qed

subsection \<open>Template visibility\<close>

text \<open>
  Claim C3. When a branch admin saves a template, whatever visibility the client state
  holds, the template handed to the store has visibility \<^verbatim>\<open>branch\<close> and the branch
  admin's own branch office id; without a branch office the save is refused and nothing
  is written. A template of visibility \<^verbatim>\<open>organization\<close> is only ever produced for an
  organization admin whose form holds the organization toggle.
\<close>

theorem branch_admin_template_is_branch:
  "(s_memberRole s = Some Branch_admin \<longrightarrow>
      (case handleSave s templateMeta activeTemplateId draft fresh_id now of
         Submitted t \<Rightarrow>
           t_visibility t = Vis_branch \<and> t_branch_office_id t = s_branchOfficeId s \<and>
           truthy (s_branchOfficeId s)
       | Refused m \<Rightarrow> True
       | Failed m \<Rightarrow> False
       | Ignored \<Rightarrow> s_organization s = None \<or> s_user s = None)
      \<and> (\<not> truthy (s_branchOfficeId s) \<longrightarrow>
           (\<forall>t. handleSave s templateMeta activeTemplateId draft fresh_id now \<noteq> Submitted t))
      \<and> (\<not> truthy (s_branchOfficeId s) \<longrightarrow> s_organization s \<noteq> None \<longrightarrow> s_user s \<noteq> None \<longrightarrow>
           trim (tm_name templateMeta) \<noteq> [] \<longrightarrow>
           handleSave s templateMeta activeTemplateId draft fresh_id now
             = Refused ''Branch templates require a branch office context.''))
   \<and> (\<forall>t. handleSave s templateMeta activeTemplateId draft fresh_id now = Submitted t \<longrightarrow>
           t_visibility t = Vis_organization \<longrightarrow>
           s_memberRole s = Some Org_admin \<and> tm_visibility templateMeta = Vis_organization)"
  by (cases "s_organization s"; cases "s_user s")
     (auto simp: handleSave_def isOrgAdmin_def Let_def split: if_splits)

theorem branch_admin_template_is_branch_witness:
  "s_memberRole branch_admin_session = Some Branch_admin
   \<and> (case handleSave branch_admin_session
          \<lparr>tm_name = ''NDA'', tm_description = [], tm_visibility = Vis_organization\<rparr>
          None [] ''t-1'' 5 of
        Submitted t \<Rightarrow> t_visibility t = Vis_branch \<and> t_branch_office_id t = Some ''B1''
      | _ \<Rightarrow> False)
   \<and> handleSave (branch_admin_session\<lparr>s_branchOfficeId := None\<rparr>)
          \<lparr>tm_name = ''NDA'', tm_description = [], tm_visibility = Vis_organization\<rparr>
          None [] ''t-1'' 5
       = Refused ''Branch templates require a branch office context.''
   \<and> (case handleSave org_admin_session
          \<lparr>tm_name = ''NDA'', tm_description = [], tm_visibility = Vis_organization\<rparr>
          None [] ''t-1'' 5 of
        Submitted t \<Rightarrow> t_visibility t = Vis_organization \<and> t_branch_office_id t = None
      | _ \<Rightarrow> False)"
  using branch_admin_template_is_branch
    [of branch_admin_session
        "\<lparr>tm_name = ''NDA'', tm_description = [], tm_visibility = Vis_organization\<rparr>"
        None "[]" "''t-1''" 5]
  by (simp add: handleSave_def branch_admin_session_def org_admin_session_def isOrgAdmin_def
      trim_def is_space_def truthy_def nullish_def example_org_def)

subsection \<open>The write path of scoped resources\<close>

text \<open>The vendor handlers and the quick project handler assign a principal who is not an
  organization admin their own branch office, whatever the form holds.\<close>

lemma handleCreateVendor_forces_branch:
  assumes "\<not> isOrgAdmin s" and "fst (handleCreateVendor s form new_id now d) = Submitted v"
  shows "vendor_branch_office_id v = s_branchOfficeId s"
  using assms
  by (auto simp: handleCreateVendor_def createVendor_def rowToVendor_def Let_def
      split: option.splits if_splits)

lemma handleQuickVendorSave_forces_branch:
  assumes "\<not> isOrgAdmin s" and "fst (handleQuickVendorSave s form new_id now d) = Submitted v"
  shows "vendor_branch_office_id v = s_branchOfficeId s"
  using assms
  by (auto simp: handleQuickVendorSave_def createVendor_def rowToVendor_def Let_def
      split: option.splits if_splits)

lemma handleQuickProjectSave_forces_branch:
  assumes "\<not> isOrgAdmin s" and "fst (handleQuickProjectSave s form new_id now d) = Submitted v"
  shows "p_branch_office_id v = s_branchOfficeId s"
  using assms
  by (auto simp: handleQuickProjectSave_def createProject_def rowToProject_def Let_def
      split: option.splits if_splits)

text \<open>\<^verbatim>\<open>ProjectManager.handleCreateProject\<close> takes the branch from the form. For a principal
  who is not an organization admin the modal keeps the form at scope \<^verbatim>\<open>branch\<close> and at a
  branch that is empty or their own, and on such a form the project gets their own branch
  office.\<close>

lemma handleCreateProject_own_branch:
  assumes "\<not> isOrgAdmin s"
      and "pf_scope form = Form_branch"
      and "pf_branchOfficeId form = [] \<or> s_branchOfficeId s = Some (pf_branchOfficeId form)"
      and "fst (handleCreateProject s form new_id now d) = Submitted v"
  shows "p_branch_office_id v = s_branchOfficeId s \<and> truthy (s_branchOfficeId s)"
  using assms
  by (auto simp: handleCreateProject_def createProject_def rowToProject_def Let_def
      js_or_def truthy_def split: option.splits if_splits)

text \<open>The vendor modal keeps the form of such a principal in the same way, and the quick
  forms of the generator are refused without a branch office whatever they hold. So on
  these forms what the three handlers create for a principal who is not an organization
  admin is never organization-wide.\<close>

lemma vendor_project_handlers_need_branch:
  assumes "\<not> isOrgAdmin s"
  shows "vf_scope vform = Form_branch \<Longrightarrow>
           vf_branchOfficeId vform = [] \<or> s_branchOfficeId s = Some (vf_branchOfficeId vform) \<Longrightarrow>
           fst (handleCreateVendor s vform new_id now d) = Submitted v \<Longrightarrow>
           truthy (s_branchOfficeId s)"
    and "qv_scope qvform = Form_branch \<Longrightarrow>
           fst (handleQuickVendorSave s qvform new_id now d) = Submitted v \<Longrightarrow>
           truthy (s_branchOfficeId s)"
    and "qp_scope qpform = Form_branch \<Longrightarrow>
           fst (handleQuickProjectSave s qpform new_id now d) = Submitted p \<Longrightarrow>
           truthy (s_branchOfficeId s)"
  using assms
  by (auto simp: handleCreateVendor_def handleQuickVendorSave_def handleQuickProjectSave_def
      Let_def js_or_def truthy_def split: option.splits if_splits)

text \<open>A principal with a branch office saves every agreement, new or edited, under that
  branch office.\<close>

lemma generator_handleSave_own_branch:
  assumes "truthy (s_branchOfficeId s)"
      and "fst (generator_handleSave s initialData g generated_id today in_a_year now d)
             = Submitted a"
  shows "ag_branchOfficeId a = s_branchOfficeId s"
  using assms
  by (auto simp: generator_handleSave_def handleSaveAgreement_def
      upsertAgreementForOrganization_def newAgreement_def agreement_payload_def
      rowToAgreement_def Let_def js_or_def truthy_def split: option.splits if_splits)

text \<open>
  Claim C5. A branch admin or branch user who creates a vendor, project or agreement gets a
  row of their own branch office, and only an organization admin can produce a row
  without a branch office. The second part is not met by \<^verbatim>\<open>AgreementGenerator.handleSave\<close>:
  it writes \<^verbatim>\<open>branchOfficeId ?? initialData?.branchOfficeId ?? null\<close> and asks nothing
  of the role, so a branch admin whose membership has no branch office, the state the
  vendor and project views lock and the other handlers refuse, saves a new agreement that
  is organization-wide.
\<close>

theorem branchless_admin_saves_org_wide_agreement:
  "s_memberRole branchless_admin_session = Some Branch_admin
   \<and> \<not> isOrgAdmin branchless_admin_session
   \<and> s_branchOfficeId branchless_admin_session = None
   \<and> (case fst (generator_handleSave branchless_admin_session None example_generator ''a9''
              ''2025-01-01'' ''2026-01-01'' 9 example_db) of
        Submitted a \<Rightarrow> ag_id a = ''a9'' \<and> ag_branchOfficeId a = None
      | _ \<Rightarrow> False)
   \<and> map (\<lambda>r. (a_id r, a_branch_office_id r))
       (agreements (snd (generator_handleSave branchless_admin_session None example_generator
          ''a9'' ''2025-01-01'' ''2026-01-01'' 9 example_db)))
       = [(''a1'', Some ''B1''), (''a2'', Some ''B2''), (''a3'', None), (''a9'', None)]
   \<and> fst (handleQuickVendorSave branchless_admin_session
          \<lparr>qv_name = ''Acme'', qv_tin = ''100'', qv_scope = Form_branch,
           qv_branchOfficeId = [], qv_contactEmail = []\<rparr> ''v9'' 9 example_db)
       = Refused ''Assign a branch to create this vendor.''"
  by (simp add: generator_handleSave_def handleSaveAgreement_def
      upsertAgreementForOrganization_def newAgreement_def agreement_payload_def
      rowToAgreement_def handleQuickVendorSave_def Let_def branchless_admin_session_def
      branch_admin_session_def isOrgAdmin_def example_generator_def or_default_def
      trim_def is_space_def truthy_def js_or_def non_empty_def nullish_def example_org_def
      example_db_def example_agreement_def)

subsection \<open>Invitations are accepted from \<^verbatim>\<open>pending\<close> only\<close>

lemma fetchInviteByToken_eq:
  "fetchInviteByToken token d =
     (case outage d of
        Some e \<Rightarrow> Inl (Backend e)
      | None \<Rightarrow> maybeSingle (filter (\<lambda>i. i_invite_token i = token) (branch_invites d)))"
  by (simp add: fetchInviteByToken_def execute_def run_query_def q_eq_def select_all_def
      split: option.splits)

text \<open>
  Claim C2. An invite that is not pending cannot be accepted: for a revoked invite no
  membership is created, the invite is not marked accepted and the user reads "not found
  or revoked". The code does not do this: \<^verbatim>\<open>fetchInviteByToken\<close> returns the invite
  whatever its status and \<^verbatim>\<open>loadInvite\<close> only turns away a missing or an accepted one, so
  a revoked invite is loaded without an error, and submitting the form creates the
  membership and moves the invite from \<^verbatim>\<open>revoked\<close> to \<^verbatim>\<open>accepted\<close>.
\<close>

theorem revoked_invite_is_accepted:
  "loadInvite ''tok-1'' (invite_db Revoked)
     = \<lparr>inviteError = None, inviteDetails = Some (example_invite Revoked), success = False\<rparr>
   \<and> success (fst (handleAccept (loadInvite ''tok-1'' (invite_db Revoked)) ''s3cret!'' ''s3cret!''
        signUp_ok ''m-1'' 7 (invite_db Revoked)))
   \<and> map i_status (branch_invites (snd (handleAccept (loadInvite ''tok-1'' (invite_db Revoked))
        ''s3cret!'' ''s3cret!'' signUp_ok ''m-1'' 7 (invite_db Revoked)))) = [Accepted]
   \<and> map (\<lambda>m. (m_user_id m, m_organization_id m, m_role m, m_branch_office_id m))
        (organization_members (snd (handleAccept (loadInvite ''tok-1'' (invite_db Revoked))
           ''s3cret!'' ''s3cret!'' signUp_ok ''m-1'' 7 (invite_db Revoked))))
       = [(''u-9'', ''org-1'', Branch_user, Some ''B1'')]"
  by (simp add: loadInvite_def fetchInviteByToken_eq maybeSingle_def single_def invite_db_def
      example_db_def example_invite_def handleAccept_def signUp_ok_def ensureMembership_def
      markInviteAccepted_def Let_def non_empty_def)

subsection \<open>One membership per user and organization\<close>

lemma ensureMembership_distinct:
  assumes "distinct (map member_key (organization_members d))"
  shows "distinct (map member_key
           (organization_members (snd (ensureMembership payload new_id now d))))"
proof (cases "outage d")
  case (Some e)
  with assms show ?thesis by (simp add: ensureMembership_def)
next
  case None
  let ?same = "\<lambda>m. m_user_id m = mp_userId payload \<and>
                    m_organization_id m = mp_organizationId payload"
  show ?thesis
  proof (cases "list_ex ?same (organization_members d)")
    case True
    have keys: "map (member_key \<circ>
               (\<lambda>m. if ?same m
                      then m\<lparr>m_role := mp_role payload,
                             m_branch_office_id := mp_branchOfficeId payload,
                             m_department := mp_department payload\<rparr>
                      else m)) ms
          = map member_key ms" for ms
      by (induction ms) (auto simp: member_key_def)
    from None True assms show ?thesis
      by (simp add: ensureMembership_def Let_def keys)
  next
    case False
    then have "(mp_userId payload, mp_organizationId payload)
        \<notin> set (map member_key (organization_members d))"
      by (auto simp: list_ex_iff member_key_def)
    with None False assms show ?thesis
      by (simp add: ensureMembership_def Let_def member_key_def)
  qed
qed

text \<open>Repeating the upsert with the same payload changes nothing more, so two resolutions
  that both reach the repair leave one row.\<close>

lemma ensureMembership_idempotent:
  "snd (ensureMembership payload id2 now2 (snd (ensureMembership payload id1 now1 d)))
     = snd (ensureMembership payload id1 now1 d)"
proof (cases "outage d")
  case (Some e)
  then show ?thesis by (simp add: ensureMembership_def)
next
  case None
  let ?same = "\<lambda>m. m_user_id m = mp_userId payload \<and>
                    m_organization_id m = mp_organizationId payload"
  let ?upd = "\<lambda>m. if ?same m
                   then m\<lparr>m_role := mp_role payload,
                          m_branch_office_id := mp_branchOfficeId payload,
                          m_department := mp_department payload\<rparr>
                   else m"
  have twice: "map ?upd (map ?upd ms) = map ?upd ms" for ms :: "member_row list"
    by (induction ms) auto
  have ex: "list_ex ?same (map ?upd ms) = list_ex ?same ms" for ms :: "member_row list"
    by (induction ms) auto
  have keep: "\<not> list_ex ?same ms \<Longrightarrow> map ?upd ms = ms" for ms :: "member_row list"
    by (induction ms) auto
  show ?thesis
  proof (cases "list_ex ?same (organization_members d)")
    case True
    with None show ?thesis
      by (simp add: ensureMembership_def Let_def ex twice del: map_map)
  next
    case False
    with None show ?thesis
      by (simp add: ensureMembership_def Let_def keep)
  qed
qed

subsection \<open>An invite is accepted at most once\<close>

lemma loadInvite_not_success [simp]: "\<not> success (loadInvite token d)"
  by (simp add: loadInvite_def split: sum.splits option.splits)

lemma loadInvite_details:
  assumes "inviteDetails (loadInvite token d) = Some ivt"
  shows "outage d = None \<and> filter (\<lambda>i. i_invite_token i = token) (branch_invites d) = [ivt]"
  using assms
  by (auto simp: loadInvite_def fetchInviteByToken_eq maybeSingle_def
      split: sum.splits option.splits if_splits list.splits)

lemma ensureMembership_frame:
  "branch_invites (snd (ensureMembership payload new_id now d)) = branch_invites d
   \<and> outage (snd (ensureMembership payload new_id now d)) = outage d"
  by (simp add: ensureMembership_def Let_def split: option.splits)

lemma markInviteAccepted_frame:
  "organization_members (snd (markInviteAccepted inviteId userId now d)) = organization_members d
   \<and> outage (snd (markInviteAccepted inviteId userId now d)) = outage d"
  by (simp add: markInviteAccepted_def Let_def split: option.splits)

lemma markInviteAccepted_token_rows:
  assumes "outage d = None"
      and "filter (\<lambda>i. i_invite_token i = token) (branch_invites d) = [ivt]"
  shows "filter (\<lambda>i. i_invite_token i = token)
           (branch_invites (snd (markInviteAccepted (i_id ivt) userId now d)))
         = [ivt\<lparr>i_status := Accepted, i_user_id := Some userId, i_accepted_at := Some now\<rparr>]"
proof -
  let ?f = "\<lambda>i. if i_id i = i_id ivt
                 then i\<lparr>i_status := Accepted, i_user_id := Some userId,
                        i_accepted_at := Some now\<rparr>
                 else i"
  have fm: "filter (\<lambda>i. i_invite_token i = token) (map ?f rows)
          = map ?f (filter (\<lambda>i. i_invite_token i = token) rows)"
    for rows :: "invite_row list"
    by (induction rows) auto
  have "branch_invites (snd (markInviteAccepted (i_id ivt) userId now d))
          = map ?f (branch_invites d)"
    using assms(1) by (simp add: markInviteAccepted_def Let_def)
  then have "filter (\<lambda>i. i_invite_token i = token)
           (branch_invites (snd (markInviteAccepted (i_id ivt) userId now d)))
         = map ?f (filter (\<lambda>i. i_invite_token i = token) (branch_invites d))"
    by (simp only: fm)
  also have "\<dots> = map ?f [ivt]"
    by (simp only: assms(2))
  finally show ?thesis by simp
qed

text \<open>
  Claim C4. Once an invite has been accepted, a second attempt with the same token reads
  "already accepted", shows no form (there are no invite details to submit), and
  submitting changes nothing in the store, so no second membership row is created.
  Membership creation is an upsert on (user, organization), so the table keeps at most
  one row per user and organization.
\<close>

theorem invite_accepted_at_most_once:
  assumes "handleAccept (loadInvite token d) password confirmPassword signUp new_id now d
             = (view1, d1)"
      and "success view1"
  shows "loadInvite token d1
           = \<lparr>inviteError = Some ''This invitation has already been accepted.'',
              inviteDetails = None, success = False\<rparr>
       \<and> handleAccept (loadInvite token d1) password2 confirmPassword2 signUp2 new_id2 now2 d1
           = (loadInvite token d1, d1)
       \<and> (distinct (map member_key (organization_members d)) \<longrightarrow>
            distinct (map member_key (organization_members d1)))"
proof -
  from assms obtain ivt userId payload m i d' where
    ivt: "inviteDetails (loadInvite token d) = Some ivt" and
    em: "ensureMembership payload new_id now d = (Inr m, d')" and
    mi: "markInviteAccepted (i_id ivt) userId now d' = (Inr i, d1)"
    by (auto simp: handleAccept_def split: option.splits if_splits sum.splits prod.splits)
  from ivt have out: "outage d = None"
    and rows: "filter (\<lambda>i. i_invite_token i = token) (branch_invites d) = [ivt]"
    using loadInvite_details by blast+
  from em have d': "d' = snd (ensureMembership payload new_id now d)" by simp
  from mi have d1: "d1 = snd (markInviteAccepted (i_id ivt) userId now d')" by simp
  have out': "outage d' = None" and rows': "filter (\<lambda>i. i_invite_token i = token)
      (branch_invites d') = [ivt]"
    using out rows ensureMembership_frame [of payload new_id now d] by (simp_all add: d')
  have out1: "outage d1 = None"
    using out' markInviteAccepted_frame [of "i_id ivt" userId now d'] by (simp add: d1)
  have rows1: "filter (\<lambda>i. i_invite_token i = token) (branch_invites d1)
      = [ivt\<lparr>i_status := Accepted, i_user_id := Some userId, i_accepted_at := Some now\<rparr>]"
    using markInviteAccepted_token_rows [OF out' rows'] by (simp add: d1)
  have load: "loadInvite token d1
           = \<lparr>inviteError = Some ''This invitation has already been accepted.'',
              inviteDetails = None, success = False\<rparr>"
    using out1 rows1 by (simp add: loadInvite_def fetchInviteByToken_eq maybeSingle_def)
  have again: "handleAccept (loadInvite token d1) password2 confirmPassword2 signUp2 new_id2
      now2 d1 = (loadInvite token d1, d1)"
    by (simp add: load handleAccept_def)
  have uniq: "distinct (map member_key (organization_members d)) \<longrightarrow>
            distinct (map member_key (organization_members d1))"
    using ensureMembership_distinct [of d payload new_id now]
      markInviteAccepted_frame [of "i_id ivt" userId now d']
    by (simp add: d1 d')
  from load again uniq show ?thesis by simp
qed

theorem invite_accepted_at_most_once_witness:
  "success (fst (handleAccept (loadInvite ''tok-1'' (invite_db Pending)) ''s3cret!'' ''s3cret!''
      signUp_ok ''m-1'' 7 (invite_db Pending)))
   \<and> loadInvite ''tok-1''
        (snd (handleAccept (loadInvite ''tok-1'' (invite_db Pending)) ''s3cret!'' ''s3cret!''
           signUp_ok ''m-1'' 7 (invite_db Pending)))
       = \<lparr>inviteError = Some ''This invitation has already been accepted.'',
          inviteDetails = None, success = False\<rparr>
   \<and> map m_user_id (organization_members
        (snd (handleAccept
           (loadInvite ''tok-1''
              (snd (handleAccept (loadInvite ''tok-1'' (invite_db Pending)) ''s3cret!''
                 ''s3cret!'' signUp_ok ''m-1'' 7 (invite_db Pending))))
           ''0ther-pw'' ''0ther-pw'' signUp_ok ''m-2'' 8
           (snd (handleAccept (loadInvite ''tok-1'' (invite_db Pending)) ''s3cret!''
              ''s3cret!'' signUp_ok ''m-1'' 7 (invite_db Pending))))))
       = [''u-9'']"
proof -
  let ?r = "handleAccept (loadInvite ''tok-1'' (invite_db Pending)) ''s3cret!'' ''s3cret!''
      signUp_ok ''m-1'' 7 (invite_db Pending)"
  have a: "?r = (fst ?r, snd ?r)" by simp
  have b: "success (fst ?r)"
    by (simp add: loadInvite_def fetchInviteByToken_eq maybeSingle_def single_def invite_db_def
      example_db_def example_invite_def handleAccept_def signUp_ok_def ensureMembership_def
      markInviteAccepted_def Let_def non_empty_def)
  have c: "map m_user_id (organization_members (snd ?r)) = [''u-9'']"
    by (simp add: loadInvite_def fetchInviteByToken_eq maybeSingle_def single_def invite_db_def
      example_db_def example_invite_def handleAccept_def signUp_ok_def ensureMembership_def
      markInviteAccepted_def Let_def non_empty_def)
  note t = invite_accepted_at_most_once
    [OF a b, of "''0ther-pw''" "''0ther-pw''" signUp_ok "''m-2''" 8]
  from t have l: "loadInvite ''tok-1'' (snd ?r)
       = \<lparr>inviteError = Some ''This invitation has already been accepted.'',
          inviteDetails = None, success = False\<rparr>"
    by (rule conjunct1)
  from t have h: "handleAccept (loadInvite ''tok-1'' (snd ?r)) ''0ther-pw'' ''0ther-pw''
      signUp_ok ''m-2'' 8 (snd ?r) = (loadInvite ''tok-1'' (snd ?r), snd ?r)"
    by (rule conjunct1 [OF conjunct2])
  have e: "snd (handleAccept (loadInvite ''tok-1'' (snd ?r)) ''0ther-pw'' ''0ther-pw''
      signUp_ok ''m-2'' 8 (snd ?r)) = snd ?r"
    by (simp only: h snd_conv)
  show ?thesis
    by (intro conjI) (rule b, rule l, simp only: e c)
qed

subsection \<open>Membership synthesis\<close>

lemma find_by_id:
  "distinct (map o_id orgs) \<Longrightarrow> org \<in> set orgs \<Longrightarrow> find (\<lambda>g. o_id g = o_id org) orgs = Some org"
  by (induction orgs) auto

text \<open>
  Claim C7. For a user who owns an organization and has no membership row, the first
  resolution adds exactly one membership, an organization admin of that organization
  without a branch, and resolves to it. Every later resolution resolves to the same
  organization, role and branch and leaves the table as it is, so the user keeps exactly
  one membership row for the organization.
\<close>

theorem membership_synthesis_idempotent:
  assumes "outage d = None"
      and "\<forall>m \<in> set (organization_members d). m_user_id m \<noteq> uid"
      and "filter (\<lambda>g. o_user_id g = uid) (organizations d) = [org]"
      and "distinct (map o_id (organizations d))"
  shows "hydrateMembership (Some uid) new_id now d
           = (\<lparr>organization = Some org, memberRole = Some Org_admin, branchOfficeId_of = None\<rparr>,
              d\<lparr>organization_members := organization_members d @
                  [\<lparr>m_id = new_id, m_organization_id = o_id org, m_user_id = uid,
                    m_role = Org_admin, m_branch_office_id = None, m_department = None,
                    m_created_at = now\<rparr>]\<rparr>)
       \<and> hydrateMembership (Some uid) new_id2 now2
             (snd (hydrateMembership (Some uid) new_id now d))
           = hydrateMembership (Some uid) new_id now d
       \<and> filter (\<lambda>m. m_user_id m = uid)
             (organization_members (snd (hydrateMembership (Some uid) new_id2 now2
                (snd (hydrateMembership (Some uid) new_id now d)))))
           = [\<lparr>m_id = new_id, m_organization_id = o_id org, m_user_id = uid,
               m_role = Org_admin, m_branch_office_id = None, m_department = None,
               m_created_at = now\<rparr>]"
proof -
  let ?m = "\<lparr>m_id = new_id, m_organization_id = o_id org, m_user_id = uid,
             m_role = Org_admin, m_branch_office_id = None, m_department = None,
             m_created_at = now\<rparr>"
  let ?d1 = "d\<lparr>organization_members := organization_members d @ [?m]\<rparr>"
  let ?st = "\<lparr>organization = Some org, memberRole = Some Org_admin, branchOfficeId_of = None\<rparr>"
  have none: "filter (\<lambda>m. m_user_id m = uid) (organization_members d) = []"
    using assms(2) by (simp add: filter_empty_conv)
  have no_same: "\<not> list_ex (\<lambda>m. m_user_id m = uid \<and> m_organization_id m = o_id org)
      (organization_members d)"
    using assms(2) by (auto simp: list_ex_iff)
  have "org \<in> set (filter (\<lambda>g. o_user_id g = uid) (organizations d))"
    by (simp only: assms(3)) simp
  then have mem: "org \<in> set (organizations d)" by simp
  have joined: "find (\<lambda>g. o_id g = o_id org) (organizations d) = Some org"
    using find_by_id [OF assms(4) mem] .
  have first: "hydrateMembership (Some uid) new_id now d = (?st, ?d1)"
    using assms(1) no_same
    by (simp add: hydrateMembership_def fetchMembershipForUser_def none assms(3)
        maybeSingle_def ensureMembership_def Let_def)
  have second: "hydrateMembership (Some uid) new_id2 now2 ?d1 = (?st, ?d1)"
    using assms(1)
    by (simp add: hydrateMembership_def fetchMembershipForUser_def none joined
        maybeSingle_def Let_def)
  have rows: "filter (\<lambda>m. m_user_id m = uid) (organization_members ?d1) = [?m]"
    by (simp add: none)
  from first second rows show ?thesis by simp
qed

theorem membership_synthesis_idempotent_witness:
  "hydrateMembership (Some ''u-1'') ''m-1'' 3 owner_db
     = (\<lparr>organization = Some example_org, memberRole = Some Org_admin, branchOfficeId_of = None\<rparr>,
        owner_db\<lparr>organization_members := organization_members owner_db @
            [\<lparr>m_id = ''m-1'', m_organization_id = ''org-1'', m_user_id = ''u-1'',
              m_role = Org_admin, m_branch_office_id = None, m_department = None,
              m_created_at = 3\<rparr>]\<rparr>)
   \<and> hydrateMembership (Some ''u-1'') ''m-2'' 4
        (snd (hydrateMembership (Some ''u-1'') ''m-1'' 3 owner_db))
     = hydrateMembership (Some ''u-1'') ''m-1'' 3 owner_db
   \<and> length (organization_members
        (snd (hydrateMembership (Some ''u-1'') ''m-2'' 4
           (snd (hydrateMembership (Some ''u-1'') ''m-1'' 3 owner_db))))) = 2"
proof -
  have h: "outage owner_db = None"
    "\<forall>m \<in> set (organization_members owner_db). m_user_id m \<noteq> ''u-1''"
    "filter (\<lambda>g. o_user_id g = ''u-1'') (organizations owner_db) = [example_org]"
    "distinct (map o_id (organizations owner_db))"
    by (simp_all add: owner_db_def example_db_def example_org_def)
  note t = membership_synthesis_idempotent [OF h, of "''m-1''" 3 "''m-2''" 4]
  from t have a: "hydrateMembership (Some ''u-1'') ''m-1'' 3 owner_db
     = (\<lparr>organization = Some example_org, memberRole = Some Org_admin, branchOfficeId_of = None\<rparr>,
        owner_db\<lparr>organization_members := organization_members owner_db @
            [\<lparr>m_id = ''m-1'', m_organization_id = o_id example_org, m_user_id = ''u-1'',
              m_role = Org_admin, m_branch_office_id = None, m_department = None,
              m_created_at = 3\<rparr>]\<rparr>)"
    by (rule conjunct1)
  from t have b: "hydrateMembership (Some ''u-1'') ''m-2'' 4
        (snd (hydrateMembership (Some ''u-1'') ''m-1'' 3 owner_db))
     = hydrateMembership (Some ''u-1'') ''m-1'' 3 owner_db"
    by (rule conjunct1 [OF conjunct2])
  have c: "length (organization_members
        (snd (hydrateMembership (Some ''u-1'') ''m-2'' 4
           (snd (hydrateMembership (Some ''u-1'') ''m-1'' 3 owner_db))))) = 2"
  proof -
    have "snd (hydrateMembership (Some ''u-1'') ''m-2'' 4
           (snd (hydrateMembership (Some ''u-1'') ''m-1'' 3 owner_db)))
        = snd (hydrateMembership (Some ''u-1'') ''m-1'' 3 owner_db)"
      by (simp only: b)
    also have "\<dots> = owner_db\<lparr>organization_members := organization_members owner_db @
            [\<lparr>m_id = ''m-1'', m_organization_id = o_id example_org, m_user_id = ''u-1'',
              m_role = Org_admin, m_branch_office_id = None, m_department = None,
              m_created_at = 3\<rparr>]\<rparr>"
      by (simp only: a snd_conv)
    finally show ?thesis by (simp add: owner_db_def)
  qed
  from a have a': "hydrateMembership (Some ''u-1'') ''m-1'' 3 owner_db
     = (\<lparr>organization = Some example_org, memberRole = Some Org_admin, branchOfficeId_of = None\<rparr>,
        owner_db\<lparr>organization_members := organization_members owner_db @
            [\<lparr>m_id = ''m-1'', m_organization_id = ''org-1'', m_user_id = ''u-1'',
              m_role = Org_admin, m_branch_office_id = None, m_department = None,
              m_created_at = 3\<rparr>]\<rparr>)"
    by (simp add: example_org_def)
  show ?thesis
    by (intro conjI) (rule a', rule b, rule c)
qed

subsection \<open>Invite creation outlives a failed e-mail\<close>

lemma fetchBranchInvites_ok:
  "outage d = None \<Longrightarrow> \<exists>data. fetchBranchInvites office roleFilter d = Inr data"
  by (simp add: fetchBranchInvites_def execute_def q_eq_def q_order_created_desc_def
      select_all_def Let_def split: option.splits)

text \<open>
  Claim C8. When the invite row has been inserted, whatever the e-mail function does
  afterwards (it may reject or resolve with an error), the store ends with exactly the
  old invites and the new one, pending and carrying its token; nothing is rolled back or
  deleted, the token loads the acceptance screen, and the view holds the raw invite link.
  When the e-mail call rejects, the view also says that the invite was saved and the link
  must be shared by hand.
\<close>

theorem invite_survives_email_failure:
  assumes "outage d = None"
      and "ov_inviteEmail view \<noteq> []"
      and "\<not> list_ex (\<lambda>i. i_invite_token i = token) (branch_invites d)"
  shows "snd (handleCreateInvite (Some og) (Some office) view token origin invoke new_id now d)
           = d\<lparr>branch_invites := branch_invites d @
                [pending_invite new_id (o_id og) (bo_id office)
                   (toLowerCase (trim (ov_inviteEmail view))) token now]\<rparr>
       \<and> ov_inviteLink
           (fst (handleCreateInvite (Some og) (Some office) view token origin invoke new_id now d))
           = Some (origin @ ''/#/invite/'' @ token)
       \<and> inviteDetails (loadInvite token
           (snd (handleCreateInvite (Some og) (Some office) view token origin invoke new_id now
              d)))
           = Some (pending_invite new_id (o_id og) (bo_id office)
                (toLowerCase (trim (ov_inviteEmail view))) token now)
       \<and> ((\<exists>m. invoke \<lparr>em_email = toLowerCase (trim (ov_inviteEmail view)),
                         em_inviteLink = origin @ ''/#/invite/'' @ token,
                         em_branchIdentifier = bo_identifier office,
                         em_organizationName = o_name og\<rparr> = Invoke_rejected m) \<longrightarrow>
           ov_inviteError
             (fst (handleCreateInvite (Some og) (Some office) view token origin invoke new_id now
                d))
           = Some (''Invite saved, but email delivery failed. '' @
                   ''Copy the link below and share it manually.''))"
proof -
  let ?ivt = "pending_invite new_id (o_id og) (bo_id office)
                (toLowerCase (trim (ov_inviteEmail view))) token now"
  let ?d1 = "d\<lparr>branch_invites := branch_invites d @ [?ivt]\<rparr>"
  let ?req = "\<lparr>em_email = toLowerCase (trim (ov_inviteEmail view)),
               em_inviteLink = origin @ ''/#/invite/'' @ token,
               em_branchIdentifier = bo_identifier office,
               em_organizationName = o_name og\<rparr>"
  have ins: "createBranchInvite
               \<lparr>ip_organizationId = o_id og, ip_branchOfficeId = bo_id office,
                ip_email = toLowerCase (trim (ov_inviteEmail view)), ip_inviteToken = token,
                ip_role = Branch_admin, ip_fullName = None, ip_department = None,
                ip_title = None\<rparr> new_id now d = (Inr ?ivt, ?d1)"
    using assms(1,3) by (simp add: createBranchInvite_def pending_invite_def Let_def)
  have out1: "outage ?d1 = None" using assms(1) by simp
  obtain data where list: "fetchBranchInvites (bo_id office) (Some Branch_admin) ?d1 = Inr data"
    using fetchBranchInvites_ok [OF out1] by blast
  have store: "snd (handleCreateInvite (Some og) (Some office) view token origin invoke new_id
      now d) = ?d1"
    using assms(2) by (simp add: handleCreateInvite_def ins list Let_def)
  have link: "ov_inviteLink (fst (handleCreateInvite (Some og) (Some office) view token origin
      invoke new_id now d)) = Some (origin @ ''/#/invite/'' @ token)"
    using assms(2)
    by (cases "invoke ?req") (simp_all add: handleCreateInvite_def ins list Let_def)
  have none: "filter (\<lambda>i. i_invite_token i = token) (branch_invites d) = []"
    using assms(3) by (auto simp: list_ex_iff filter_empty_conv)
  have load: "inviteDetails (loadInvite token ?d1) = Some ?ivt"
    using out1
    by (simp add: loadInvite_def fetchInviteByToken_eq maybeSingle_def none pending_invite_def)
  have msg: "(\<exists>m. invoke ?req = Invoke_rejected m) \<longrightarrow>
      ov_inviteError (fst (handleCreateInvite (Some og) (Some office) view token origin invoke
        new_id now d))
      = Some (''Invite saved, but email delivery failed. '' @
              ''Copy the link below and share it manually.'')"
    using assms(2) by (auto simp: handleCreateInvite_def ins list Let_def)
  from store link load msg show ?thesis by (simp only: store)
qed

lemma lower_example: "toLowerCase (trim ''Bo@Example.com'') = ''bo@example.com''"
  by code_simp

theorem invite_survives_email_failure_witness:
  "branch_invites
     (snd (handleCreateInvite (Some example_org) (Some example_office) example_office_view
        ''tok-9'' ''https://lex.example'' smtp_down ''inv-9'' 6 owner_db))
     = [pending_invite ''inv-9'' ''org-1'' ''B1'' ''bo@example.com'' ''tok-9'' 6]
   \<and> ov_inviteLink
       (fst (handleCreateInvite (Some example_org) (Some example_office) example_office_view
          ''tok-9'' ''https://lex.example'' smtp_down ''inv-9'' 6 owner_db))
     = Some ''https://lex.example/#/invite/tok-9''
   \<and> ov_inviteError
       (fst (handleCreateInvite (Some example_org) (Some example_office) example_office_view
          ''tok-9'' ''https://lex.example'' smtp_down ''inv-9'' 6 owner_db))
     = Some ''Invite saved, but email delivery failed. Copy the link below and share it manually.''"
proof -
  have h: "outage owner_db = None" "ov_inviteEmail example_office_view \<noteq> []"
    "\<not> list_ex (\<lambda>i. i_invite_token i = ''tok-9'') (branch_invites owner_db)"
    by (simp_all add: owner_db_def example_db_def example_office_view_def)
  have e: "toLowerCase (trim (ov_inviteEmail example_office_view)) = ''bo@example.com''"
    by (simp add: example_office_view_def lower_example)
  show ?thesis
    using invite_survives_email_failure
      [OF h, of example_org example_office "''https://lex.example''" smtp_down "''inv-9''" 6]
    by (simp add: e smtp_down_def example_org_def example_office_def owner_db_def
        example_db_def)
qed

end
